theory Spec2Isabelle
  imports Main "HOL-Library.Word"
begin

unbundle bit_operations_syntax

section \<open>Data model\<close>

text \<open>
  The firmware is a set of C functions that share global variables and poke peripheral
  registers. Every function becomes a transformer of one device state \<open>dev\<close>: the globals
  of \<open>DACprocess.c\<close>, \<open>main.c\<close> and \<open>stm32h5xx_it.c\<close>, the timer registers the code assigns
  numbers to, and an ordered log of every other peripheral operation (vendor library
  calls, flag-register read-modify-writes, USB transmissions).  Values the hardware
  supplies (status registers read in an interrupt handler, the GPIO input register,
  the status returned by a vendor call that the code checks) are inputs of the
  function that reads them.
\<close>

type_synonym u8 = "8 word"
type_synonym u16 = "16 word"
type_synonym u32 = "32 word"

text \<open>\<open>enum triggerStates{triggerState, postTrigger, preTrigger, noTrigger}\<close> (main.c)\<close>

datatype triggerStates = triggerState | postTrigger | preTrigger | noTrigger

text \<open>Ways in which a function does not return to its caller.\<close>

datatype stop =
    OutOfBounds    \<comment> \<open>a write outside the array it indexes: undefined behaviour in C\<close>
  | Error_Handler  \<comment> \<open>\<open>Error_Handler()\<close>: interrupts off, \<open>while (1) {}\<close>\<close>

datatype HAL_StatusTypeDef = HAL_OK | HAL_ERROR | HAL_BUSY | HAL_TIMEOUT

datatype adc_inst = ADC1 | ADC2
datatype tim_inst = TIM5 | TIM6 | TIM7 | TIM8 | TIM16 | TIM17
datatype gpio_port = GPIOB | GPIOC | GPIOD | GPIOE | GPIOG
datatype dma_handle = handle_GPDMA2_Channel0 | handle_GPDMA2_Channel1
datatype ll_awd = LL_ADC_AWD1 | LL_ADC_AWD2
datatype ll_awd_threshold = LL_ADC_AWD_THRESHOLD_HIGH | LL_ADC_AWD_THRESHOLD_LOW
datatype ll_awd_channel = LL_ADC_AWD_CHANNEL_0_REG | LL_ADC_AWD_CHANNEL_3_REG
datatype adc_cr_bit = ADC_CR_ADSTART | ADC_CR_ADEN
datatype HAL_TIM_ActiveChannel =
    HAL_TIM_ACTIVE_CHANNEL_1 | HAL_TIM_ACTIVE_CHANNEL_2 | HAL_TIM_ACTIVE_CHANNEL_3
  | HAL_TIM_ACTIVE_CHANNEL_4 | HAL_TIM_ACTIVE_CHANNEL_CLEARED

datatype ll_adc_samplingtime =
    LL_ADC_SAMPLINGTIME_2CYCLES_5 | LL_ADC_SAMPLINGTIME_6CYCLES_5
  | LL_ADC_SAMPLINGTIME_12CYCLES_5 | LL_ADC_SAMPLINGTIME_24CYCLES_5
  | LL_ADC_SAMPLINGTIME_47CYCLES_5 | LL_ADC_SAMPLINGTIME_92CYCLES_5
  | LL_ADC_SAMPLINGTIME_247CYCLES_5 | LL_ADC_SAMPLINGTIME_640CYCLES_5

text \<open>The handle passed to the timer callbacks: which timer, and the channel the vendor
  interrupt routine marked active before calling back.\<close>

record TIM_HandleTypeDef =
  Instance :: tim_inst
  Channel :: HAL_TIM_ActiveChannel

text \<open>Modelled from the spec: \<open>DATA_Packet\<close> is declared in main.h, which is not among the
  sources.  Section 6 gives its layout: tag, oscilloscope cursor (u16), logic cursor (u16)
  and three sample windows.  A window is \<open>None\<close> when \<open>memcpy\<close> read it from outside the
  source array (its contents are then whatever lies behind the array).\<close>

record DATA_Packet =
  DATA_packet_type :: u8
  DATA_adcpos :: u16
  DATA_logicpos :: u16
  DATA_oscch1 :: "u16 list option"
  DATA_oscch2 :: "u16 list option"
  DATA_logic :: "u16 list option"

text \<open>What is handed to \<open>CDC_Transmit_FS\<close>.  \<open>TRANS_Packet\<close> carries the tag and the
  acknowledgment string; its padding is copied from an uninitialised local array and is
  not represented.\<close>

datatype tx_frame =
    TRANS_Packet u8 "u8 list"
  | Bytes "u8 list"
  | DATA DATA_Packet

text \<open>Peripheral operations that are recorded, in program order, rather than interpreted.\<close>

datatype hw_op =
    CDC_Transmit_FS tx_frame
  | HAL_GPIO_WritePin gpio_port nat u8
  | HAL_GPIO_TogglePin gpio_port nat
  | HAL_TIM_DISABLE tim_inst
  | HAL_DAC_Stop_DMA nat
  | HAL_DAC_Start_DMA nat nat u16
  | HAL_ADC_Stop_DMA adc_inst
  | HAL_ADC_Start_DMA adc_inst
  | TIM_EGR_assign_UG tim_inst
  | TIM_CR1_or_CEN tim_inst
  | ADC_CR_or adc_inst adc_cr_bit
  | ADC_CR_andnot adc_inst adc_cr_bit
  | ADC_ISR_or adc_inst ll_awd
  | LL_ADC_EnableIT adc_inst ll_awd
  | LL_ADC_DisableIT adc_inst ll_awd
  | LL_DMA_EnableIT_TC dma_handle nat
  | LL_DMA_EnableIT_HT dma_handle nat
  | LL_DMA_DisableIT_TC dma_handle nat
  | LL_DMA_DisableIT_HT dma_handle nat
  | LL_ADC_SetAnalogWDMonitChannels adc_inst ll_awd ll_awd_channel
  | LL_ADC_SetAnalogWDThresholds adc_inst ll_awd ll_awd_threshold u32
  | HAL_TIM_PWM_Start_IT tim_inst
  | HAL_TIM_PWM_Stop tim_inst
  | HAL_TIM_PWM_Stop_IT tim_inst
  | HAL_TIM_Base_Stop tim_inst
  | HAL_TIM_Base_Start_IT tim_inst
  | HAL_TIM_Base_Stop_IT tim_inst
  | HAL_TIM_Base_Init tim_inst u32 u32
  | HAL_TIM_PWM_Init tim_inst u32 u32
  | HAL_TIMEx_MasterConfigSynchronization tim_inst
  | HAL_TIM_PWM_ConfigChannel tim_inst nat
  | HAL_NVIC_EnableIRQ adc_inst
  | HAL_NVIC_DisableIRQ adc_inst
  | HAL_ADC_IRQHandler adc_inst
  | HAL_TIM_IRQHandler tim_inst
  | delay_us nat

record dev =
  \<comment> \<open>DACprocess.c\<close>
  awg_lut :: "nat \<Rightarrow> u8"
  BULK_BUFF_RECV :: u16
  BULK_BUFF :: "nat option"
  numSamples :: "nat \<Rightarrow> u16"
  phaseARR :: "nat \<Rightarrow> u16"
  ARR_hold :: "nat \<Rightarrow> u16"
  \<comment> \<open>main.c\<close>
  adc_buff :: "nat \<Rightarrow> u16"
  adc_buff1 :: "nat \<Rightarrow> u16"
  halfcomplete :: int
  fullcomplete :: int
  pauseTransmit :: u8
  shadowCount :: u16
  adcpos :: u16
  triggerType :: u8
  triggerDuration :: u16
  adcsend :: u8
  Logic_buff :: "nat \<Rightarrow> u16"
  logicpos :: u16
  logicsend :: u8
  trigger :: int
  Logicstate :: triggerStates
  ADCstate :: triggerStates
  period16 :: u16
  prescaler16 :: u16
  period32 :: u32
  trigPin :: u8
  trigEdge :: u8
  pastValue :: u16
  logicWritePointer :: u16
  currentValue :: u16
  \<comment> \<open>stm32h5xx_it.c\<close>
  firstTrigger :: u8
  \<comment> \<open>timer registers and ADC channel sampling times\<close>
  TIM1_CCR1 :: u32
  TIM1_CCR2 :: u32
  TIM6_ARR :: u32
  TIM6_PSC :: u32
  TIM6_CNT :: u32
  TIM7_ARR :: u32
  TIM7_PSC :: u32
  TIM7_CNT :: u32
  TIM8_PSC :: u32
  TIM8_ARR :: u32
  TIM8_CNT :: u32
  TIM17_PSC :: u32
  TIM17_ARR :: u32
  TIM17_CNT :: u32
  SMP_ADC1_CHANNEL_0 :: ll_adc_samplingtime
  SMP_ADC2_CHANNEL_3 :: ll_adc_samplingtime
  \<comment> \<open>everything else that was done to the hardware, oldest first\<close>
  hw_log :: "hw_op list"

text \<open>
  \<^item> \<open>awg_lut\<close> is the two-dimensional byte array \<open>awg_lut[AWG_NUM_CHAN][AWG_SAMPLES*2]\<close>
    addressed by byte offset from its start; \<open>BULK_BUFF\<close> is a pointer into it, held as
    that offset (\<open>None\<close> is the null pointer of the uninitialised global).
  \<^item> The other arrays are addressed by element index; the capacity of each is a constant
    below and every write checks it.
\<close>

definition AWG_SAMPLES :: nat where "AWG_SAMPLES = 1024 * 4"
definition AWG_NUM_CHAN :: nat where "AWG_NUM_CHAN = 2"
definition HS_STRING_LEN :: nat where "HS_STRING_LEN = 4"
definition ACK_STRING_LEN :: nat where "ACK_STRING_LEN = 8"
definition ADC_BUFF :: nat where "ADC_BUFF = 30000"
definition LOGIC_BUFF :: nat where "LOGIC_BUFF = 30000"

text \<open>Modelled from the spec: \<open>datalength\<close> is a macro of main.h, which is not among the
  sources; sections 4.4 and 6 fix the window at 8 samples.\<close>

definition datalength :: nat where "datalength = 8"

definition ACK_STRING :: "u8 list" where
  "ACK_STRING = map of_char ''STMAWG23''"

definition HS_STRING :: "u8 list" where
  "HS_STRING = map of_char ''INIT''"

definition hw :: "hw_op \<Rightarrow> dev \<Rightarrow> dev" where
  "hw c s = s\<lparr>hw_log := hw_log s @ [c]\<rparr>"

text \<open>Frames handed to the USB transmit routine, in order.\<close>

definition sent_frames :: "hw_op list \<Rightarrow> tx_frame list" where
  "sent_frames l = List.map_filter (\<lambda>c. case c of CDC_Transmit_FS f \<Rightarrow> Some f | _ \<Rightarrow> None) l"

text \<open>Statements in sequence.\<close>

fun seq :: "(dev \<Rightarrow> dev) list \<Rightarrow> dev \<Rightarrow> dev" where
  "seq [] s = s"
| "seq (f # fs) s = seq fs (f s)"

text \<open>Sequencing of steps that may not return.\<close>

fun steps :: "(dev \<Rightarrow> stop + dev) list \<Rightarrow> dev \<Rightarrow> stop + dev" where
  "steps [] s = Inr s"
| "steps (f # fs) s = (case f s of Inl e \<Rightarrow> Inl e | Inr s' \<Rightarrow> steps fs s')"


definition returns :: "(dev \<Rightarrow> dev) \<Rightarrow> dev \<Rightarrow> stop + dev" where
  "returns f s = Inr (f s)"

text \<open>A vendor call whose status the code checks: anything but \<open>HAL_OK\<close> leads into
  \<open>Error_Handler()\<close>.  The status comes from the environment \<open>hal\<close>.\<close>

definition checked :: "(hw_op \<Rightarrow> HAL_StatusTypeDef) \<Rightarrow> hw_op \<Rightarrow> dev \<Rightarrow> stop + dev" where
  "checked hal c s = (if hal c \<noteq> HAL_OK then Inl Error_Handler else Inr (hw c s))"

section \<open>Incoming frames (DACprocess.h)\<close>

text \<open>\<open>RECV_Packet\<close> is a packed struct laid over the 64 received bytes; the target is
  little-endian.  Each field is read at its byte offset.\<close>

definition rd16 :: "u8 list \<Rightarrow> nat \<Rightarrow> u16" where
  "rd16 p i = ucast (p ! i) OR push_bit 8 (ucast (p ! (i + 1)))"

definition rd32 :: "u8 list \<Rightarrow> nat \<Rightarrow> u32" where
  "rd32 p i = ucast (p ! i) OR push_bit 8 (ucast (p ! (i + 1)))
              OR push_bit 16 (ucast (p ! (i + 2))) OR push_bit 24 (ucast (p ! (i + 3)))"

definition packet_type :: "u8 list \<Rightarrow> u8" where "packet_type p = p ! 0"

definition handshake_string :: "u8 list \<Rightarrow> nat \<Rightarrow> u8" where
  "handshake_string p i = p ! (1 + i)"

definition AWG_SET_channel :: "u8 list \<Rightarrow> u8" where "AWG_SET_channel p = p ! 1"
definition AWG_SET_gain :: "u8 list \<Rightarrow> u8" where "AWG_SET_gain p = p ! 2"
definition AWG_SET_PSC :: "u8 list \<Rightarrow> u16" where "AWG_SET_PSC p = rd16 p 3"
definition AWG_SET_ARR :: "u8 list \<Rightarrow> u16" where "AWG_SET_ARR p = rd16 p 5"
definition AWG_SET_CCR_offset :: "u8 list \<Rightarrow> u16" where "AWG_SET_CCR_offset p = rd16 p 7"
definition AWG_SET_numSamples :: "u8 list \<Rightarrow> u16" where "AWG_SET_numSamples p = rd16 p 9"
definition AWG_SET_phaseARR :: "u8 list \<Rightarrow> u16" where "AWG_SET_phaseARR p = rd16 p 11"

definition ADC_SET_channel :: "u8 list \<Rightarrow> u8" where "ADC_SET_channel p = p ! 1"
definition ADC_SET_adcmode :: "u8 list \<Rightarrow> u8" where "ADC_SET_adcmode p = p ! 2"
definition ADC_SET_triggermode :: "u8 list \<Rightarrow> u8" where "ADC_SET_triggermode p = p ! 3"
definition ADC_SET_triggerval :: "u8 list \<Rightarrow> u16" where "ADC_SET_triggerval p = rd16 p 4"
definition ADC_SET_sampletime :: "u8 list \<Rightarrow> u8" where "ADC_SET_sampletime p = p ! 6"
definition ADC_SET_offset :: "u8 list \<Rightarrow> u8" where "ADC_SET_offset p = p ! 7"
definition ADC_SET_attenuation :: "u8 list \<Rightarrow> u8" where "ADC_SET_attenuation p = p ! 8"
definition ADC_SET_amp10 :: "u8 list \<Rightarrow> u8" where "ADC_SET_amp10 p = p ! 9"
definition ADC_SET_amp5 :: "u8 list \<Rightarrow> u8" where "ADC_SET_amp5 p = p ! 10"
definition ADC_SET_amp2_5 :: "u8 list \<Rightarrow> u8" where "ADC_SET_amp2_5 p = p ! 11"
definition ADC_SET_amp1 :: "u8 list \<Rightarrow> u8" where "ADC_SET_amp1 p = p ! 12"

definition LOGIC_SET_control :: "u8 list \<Rightarrow> u8" where "LOGIC_SET_control p = p ! 1"
definition LOGIC_SET_triggerpin :: "u8 list \<Rightarrow> u16" where "LOGIC_SET_triggerpin p = rd16 p 2"
definition LOGIC_SET_triggeredge :: "u8 list \<Rightarrow> u16" where "LOGIC_SET_triggeredge p = rd16 p 4"
definition LOGIC_SET_period16 :: "u8 list \<Rightarrow> u16" where "LOGIC_SET_period16 p = rd16 p 6"
definition LOGIC_SET_prescaler :: "u8 list \<Rightarrow> u16" where "LOGIC_SET_prescaler p = rd16 p 8"
definition LOGIC_SET_period32 :: "u8 list \<Rightarrow> u32" where "LOGIC_SET_period32 p = rd32 p 10"

section \<open>DACprocess.c\<close>

definition SendAck :: "dev \<Rightarrow> dev" where
  "SendAck = hw (CDC_Transmit_FS (TRANS_Packet 0 ACK_STRING))"

definition changeSamplingtime :: "u8 \<Rightarrow> dev \<Rightarrow> dev" where
  "changeSamplingtime sampletime s =
    (if sampletime = 0 then s\<lparr>SMP_ADC1_CHANNEL_0 := LL_ADC_SAMPLINGTIME_2CYCLES_5,
                               SMP_ADC2_CHANNEL_3 := LL_ADC_SAMPLINGTIME_2CYCLES_5\<rparr>
     else if sampletime = 1 then s\<lparr>SMP_ADC1_CHANNEL_0 := LL_ADC_SAMPLINGTIME_6CYCLES_5,
                               SMP_ADC2_CHANNEL_3 := LL_ADC_SAMPLINGTIME_6CYCLES_5\<rparr>
     else if sampletime = 2 then s\<lparr>SMP_ADC1_CHANNEL_0 := LL_ADC_SAMPLINGTIME_12CYCLES_5,
                               SMP_ADC2_CHANNEL_3 := LL_ADC_SAMPLINGTIME_12CYCLES_5\<rparr>
     else if sampletime = 3 then s\<lparr>SMP_ADC1_CHANNEL_0 := LL_ADC_SAMPLINGTIME_24CYCLES_5,
                               SMP_ADC2_CHANNEL_3 := LL_ADC_SAMPLINGTIME_24CYCLES_5\<rparr>
     else if sampletime = 4 then s\<lparr>SMP_ADC1_CHANNEL_0 := LL_ADC_SAMPLINGTIME_47CYCLES_5,
                               SMP_ADC2_CHANNEL_3 := LL_ADC_SAMPLINGTIME_47CYCLES_5\<rparr>
     else if sampletime = 5 then s\<lparr>SMP_ADC1_CHANNEL_0 := LL_ADC_SAMPLINGTIME_92CYCLES_5,
                               SMP_ADC2_CHANNEL_3 := LL_ADC_SAMPLINGTIME_92CYCLES_5\<rparr>
     else if sampletime = 6 then s\<lparr>SMP_ADC1_CHANNEL_0 := LL_ADC_SAMPLINGTIME_247CYCLES_5,
                               SMP_ADC2_CHANNEL_3 := LL_ADC_SAMPLINGTIME_247CYCLES_5\<rparr>
     else if sampletime = 7 then s\<lparr>SMP_ADC1_CHANNEL_0 := LL_ADC_SAMPLINGTIME_640CYCLES_5,
                               SMP_ADC2_CHANNEL_3 := LL_ADC_SAMPLINGTIME_640CYCLES_5\<rparr>
     else s)"

definition changeADCmode :: "u8 \<Rightarrow> dev \<Rightarrow> dev" where
  "changeADCmode mode =
    (if mode = 0 then
       seq [(\<lambda>s. s\<lparr>TIM8_PSC := 25 - 1, TIM8_ARR := 2 - 1, TIM17_PSC := 500 - 1, TIM17_ARR := 10 - 1\<rparr>),
            changeSamplingtime 0]
     else if mode = 1 then
       seq [(\<lambda>s. s\<lparr>TIM8_ARR := 5 - 1, TIM17_ARR := 25 - 1\<rparr>),
            changeSamplingtime 0]
     else if mode = 2 then
       seq [(\<lambda>s. s\<lparr>TIM8_ARR := 10 - 1, TIM17_ARR := 50 - 1\<rparr>),
            changeSamplingtime 2]
     else if mode = 3 then
       seq [(\<lambda>s. s\<lparr>TIM8_ARR := 20 - 1, TIM17_ARR := 100 - 1\<rparr>),
            changeSamplingtime 4]
     else if mode = 4 then
       seq [(\<lambda>s. s\<lparr>TIM8_ARR := 50 - 1, TIM17_ARR := 250 - 1\<rparr>),
            changeSamplingtime 5]
     else if mode = 5 then
       seq [(\<lambda>s. s\<lparr>TIM8_ARR := 100 - 1, TIM17_ARR := 500 - 1\<rparr>),
            changeSamplingtime 6]
     else if mode = 6 then
       seq [(\<lambda>s. s\<lparr>TIM8_ARR := 200 - 1, TIM17_ARR := 1000 - 1\<rparr>),
            changeSamplingtime 7]
     else if mode = 7 then
       seq [(\<lambda>s. s\<lparr>TIM8_ARR := 500 - 1, TIM17_ARR := 2500 - 1\<rparr>),
            changeSamplingtime 7]
     else if mode = 8 then
       seq [(\<lambda>s. s\<lparr>TIM8_ARR := 1000 - 1, TIM17_ARR := 5000 - 1\<rparr>),
            changeSamplingtime 7]
     else if mode = 9 then
       seq [(\<lambda>s. s\<lparr>TIM8_ARR := 2000 - 1, TIM17_ARR := 10000 - 1\<rparr>),
            changeSamplingtime 7]
     else if mode = 10 then
       seq [(\<lambda>s. s\<lparr>TIM8_ARR := 5000 - 1, TIM17_ARR := 25000 - 1\<rparr>),
            changeSamplingtime 7]
     else if mode = 11 then
       seq [(\<lambda>s. s\<lparr>TIM8_ARR := 10000 - 1, TIM17_ARR := 50000 - 1\<rparr>),
            changeSamplingtime 7]
     else
       seq [(\<lambda>s. s\<lparr>TIM8_PSC := 25 - 1, TIM8_ARR := 2 - 1, TIM17_PSC := 500 - 1, TIM17_ARR := 10 - 1\<rparr>),
            changeSamplingtime 0])"

definition disableDMAIT :: "dma_handle \<Rightarrow> dev \<Rightarrow> dev" where
  "disableDMAIT hdma =
     seq [hw (LL_DMA_DisableIT_TC hdma 0),
          hw (LL_DMA_DisableIT_TC hdma 1),
          hw (LL_DMA_DisableIT_HT hdma 0),
          hw (LL_DMA_DisableIT_HT hdma 1)]"

definition enableDMAIT :: "dma_handle \<Rightarrow> dev \<Rightarrow> dev" where
  "enableDMAIT hdma =
     seq [hw (LL_DMA_EnableIT_TC hdma 0),
          hw (LL_DMA_EnableIT_TC hdma 1),
          hw (LL_DMA_EnableIT_HT hdma 0),
          hw (LL_DMA_EnableIT_HT hdma 1)]"

definition enableAWDIT :: "adc_inst \<Rightarrow> dev \<Rightarrow> dev" where
  "enableAWDIT hadc =
     seq [hw (LL_ADC_EnableIT hadc LL_ADC_AWD1),
          hw (LL_ADC_EnableIT hadc LL_ADC_AWD2),
          hw (ADC_ISR_or hadc LL_ADC_AWD1),
          hw (ADC_ISR_or hadc LL_ADC_AWD2)]"

definition disableAWDIT :: "adc_inst \<Rightarrow> dev \<Rightarrow> dev" where
  "disableAWDIT hadc =
     seq [hw (LL_ADC_DisableIT hadc LL_ADC_AWD1),
          hw (LL_ADC_DisableIT hadc LL_ADC_AWD2),
          hw (ADC_ISR_or hadc LL_ADC_AWD1),
          hw (ADC_ISR_or hadc LL_ADC_AWD2)]"

section \<open>main.c: helpers called from the command handler\<close>

definition ADCstop :: "dev \<Rightarrow> dev" where
  "ADCstop = seq [hw (HAL_ADC_Stop_DMA ADC1),
                  hw (HAL_ADC_Stop_DMA ADC2)]"

definition ADCstart :: "dev \<Rightarrow> dev" where
  "ADCstart =
     seq [hw (HAL_ADC_Start_DMA ADC1),
          hw (HAL_ADC_Start_DMA ADC2),
          hw (ADC_ISR_or ADC2 LL_ADC_AWD1),
          hw (ADC_ISR_or ADC2 LL_ADC_AWD2),
          hw (ADC_ISR_or ADC1 LL_ADC_AWD1),
          hw (ADC_ISR_or ADC1 LL_ADC_AWD2),
          hw (HAL_GPIO_WritePin GPIOD 6 1),
          (\<lambda>s. s\<lparr>TIM8_CNT := 0, TIM17_CNT := 0\<rparr>),
          hw (TIM_EGR_assign_UG TIM8),
          hw (TIM_EGR_assign_UG TIM17),
          (\<lambda>s. s\<lparr>TIM8_CNT := 0, TIM17_CNT := 0\<rparr>),
          (\<lambda>s. s\<lparr>adcpos := 0, shadowCount := 0\<rparr>)]"

text \<open>\<open>memset(Logic_buff, 0, sizeof(Logic_buff))\<close>\<close>

definition memset_Logic_buff :: "dev \<Rightarrow> dev" where
  "memset_Logic_buff s = s\<lparr>Logic_buff := (\<lambda>i. if i < LOGIC_BUFF then 0 else Logic_buff s i)\<rparr>"

definition MX_TIM16_Init ::
  "(hw_op \<Rightarrow> HAL_StatusTypeDef) \<Rightarrow> u16 \<Rightarrow> u16 \<Rightarrow> dev \<Rightarrow> stop + dev" where
  "MX_TIM16_Init hal period prescaler =
     checked hal (HAL_TIM_Base_Init TIM16 (ucast prescaler) (ucast period))"

definition MX_TIM5_Init :: "(hw_op \<Rightarrow> HAL_StatusTypeDef) \<Rightarrow> u32 \<Rightarrow> dev \<Rightarrow> stop + dev" where
  "MX_TIM5_Init hal period =
     steps [returns memset_Logic_buff,
            checked hal (HAL_TIM_PWM_Init TIM5 0 period),
            checked hal (HAL_TIMEx_MasterConfigSynchronization TIM5),
            checked hal (HAL_TIM_PWM_ConfigChannel TIM5 1),
            checked hal (HAL_TIM_PWM_ConfigChannel TIM5 2)]"

definition changeLogic :: "(hw_op \<Rightarrow> HAL_StatusTypeDef) \<Rightarrow> dev \<Rightarrow> stop + dev" where
  "changeLogic hal =
     steps [(\<lambda>s. MX_TIM16_Init hal (period16 s) (prescaler16 s) s),
            (\<lambda>s. MX_TIM5_Init hal (period32 s) s)]"

section \<open>DACprocess.c: \<open>GotCDC_64B_Packet\<close>\<close>

text \<open>The handshake loop: \<open>match\<close> starts at 1 and is cleared by any differing byte.\<close>

definition handshake_match :: "u8 list \<Rightarrow> int" where
  "handshake_match p =
     fold (\<lambda>i match. if handshake_string p i \<noteq> HS_STRING ! i then 0 else match)
          [0..<HS_STRING_LEN] 1"

definition got_HandShake :: "u8 list \<Rightarrow> dev \<Rightarrow> dev" where
  "got_HandShake p =
     seq [(if handshake_match p \<noteq> 0 then SendAck else id),
          hw (HAL_GPIO_TogglePin GPIOD 6)]"

text \<open>\<open>packet_type == 1\<close>.  \<open>numSamples\<close>, \<open>phaseARR\<close> and \<open>ARR_hold\<close> have \<open>AWG_NUM_CHAN\<close>
  elements and are indexed by the channel byte as received.\<close>

definition got_AWG_SET :: "u8 list \<Rightarrow> dev \<Rightarrow> stop + dev" where
  "got_AWG_SET p =
    (let chan = unat (AWG_SET_channel p);
         PSC = AWG_SET_PSC p;
         ARR = AWG_SET_ARR p;
         CCR_offset = AWG_SET_CCR_offset p;
         gain = AWG_SET_gain p
     in steps [
       returns SendAck,
       (\<lambda>s. if chan < AWG_NUM_CHAN
             then Inr (s\<lparr>numSamples := (numSamples s)(chan := AWG_SET_numSamples p),
                         phaseARR := (phaseARR s)(chan := AWG_SET_phaseARR p)\<rparr>)
             else Inl OutOfBounds),
       returns (
         seq [(\<lambda>s. s\<lparr>BULK_BUFF_RECV :=
                    word_of_int (if uint (numSamples s chan) < 32 then 128
                                 else uint (numSamples s chan) * 2),
                 BULK_BUFF := Some (chan * (AWG_SAMPLES * 2))\<rparr>),
              (if chan = 0 then
               seq [(\<lambda>s. s\<lparr>TIM1_CCR1 := ucast CCR_offset, TIM6_ARR := ucast ARR,
                       TIM6_PSC := ucast PSC, ARR_hold := (ARR_hold s)(0 := ARR)\<rparr>),
                    hw (HAL_GPIO_WritePin GPIOE 13 gain)]
             else
               seq [(\<lambda>s. s\<lparr>TIM1_CCR2 := ucast CCR_offset, TIM7_ARR := ucast ARR,
                       TIM7_PSC := ucast PSC, ARR_hold := (ARR_hold s)(1 := ARR)\<rparr>),
                    hw (HAL_GPIO_WritePin GPIOE 12 gain)]),
              hw (HAL_TIM_DISABLE TIM6),
              hw (HAL_TIM_DISABLE TIM7),
              hw (HAL_DAC_Stop_DMA 1),
              hw (HAL_DAC_Stop_DMA 2),
              (\<lambda>s. hw (HAL_DAC_Start_DMA 1 0 (numSamples s 0)) s),
              (\<lambda>s. hw (HAL_DAC_Start_DMA 2 1 (numSamples s 1)) s),
              hw (TIM_EGR_assign_UG TIM6),
              hw (TIM_EGR_assign_UG TIM7),
              (\<lambda>s. s\<lparr>TIM6_CNT := word_of_int (uint (phaseARR s 0) - uint (ARR_hold s 1))\<rparr>),
              (\<lambda>s. s\<lparr>TIM7_CNT := word_of_int (uint (phaseARR s 1) - uint (ARR_hold s 0))\<rparr>),
              hw (TIM_CR1_or_CEN TIM6),
              hw (TIM_CR1_or_CEN TIM7)])])"

text \<open>Analog watchdog thresholds are computed in \<open>int\<close> from the 16-bit trigger level and
  passed as \<open>uint32_t\<close>; \<open>>> 4\<close> on \<open>int\<close> is the arithmetic shift.\<close>

definition arm_AWD :: "adc_inst \<Rightarrow> ll_awd_channel \<Rightarrow> int \<Rightarrow> int \<Rightarrow> int \<Rightarrow> int \<Rightarrow> dev \<Rightarrow> dev" where
  "arm_AWD adc ch hi1 lo1 hi2 lo2 =
     seq [hw (LL_ADC_SetAnalogWDMonitChannels adc LL_ADC_AWD1 ch),
          hw (LL_ADC_SetAnalogWDMonitChannels adc LL_ADC_AWD2 ch),
          hw (LL_ADC_SetAnalogWDThresholds adc LL_ADC_AWD1 LL_ADC_AWD_THRESHOLD_HIGH (word_of_int hi1)),
          hw (LL_ADC_SetAnalogWDThresholds adc LL_ADC_AWD1 LL_ADC_AWD_THRESHOLD_LOW (word_of_int lo1)),
          hw (LL_ADC_SetAnalogWDThresholds adc LL_ADC_AWD2 LL_ADC_AWD_THRESHOLD_HIGH (word_of_int hi2)),
          hw (LL_ADC_SetAnalogWDThresholds adc LL_ADC_AWD2 LL_ADC_AWD_THRESHOLD_LOW (word_of_int lo2)),
          enableAWDIT adc]"

definition got_ADC_SET :: "u8 list \<Rightarrow> dev \<Rightarrow> dev" where
  "got_ADC_SET p =
    (let chan = ADC_SET_channel p;
         adcmode = ADC_SET_adcmode p;
         triggermode = ADC_SET_triggermode p;
         triggerval = uint (ADC_SET_triggerval p);
         offset = ADC_SET_offset p;
         attenuation = ADC_SET_attenuation p;
         amp10 = ADC_SET_amp10 p;
         amp5 = ADC_SET_amp5 p;
         amp2_5 = ADC_SET_amp2_5 p;
         amp1 = ADC_SET_amp1 p
     in
       seq [SendAck,
            (if chan = 0 then
             seq [hw (HAL_GPIO_WritePin GPIOD 2 offset),
                  hw (HAL_GPIO_WritePin GPIOD 1 attenuation),
                  hw (HAL_GPIO_WritePin GPIOD 0 amp10),
                  hw (HAL_GPIO_WritePin GPIOC 12 amp5),
                  hw (HAL_GPIO_WritePin GPIOC 11 amp2_5),
                  hw (HAL_GPIO_WritePin GPIOC 10 amp1)]
           else id),
            (if chan = 1 then
             seq [hw (HAL_GPIO_WritePin GPIOE 7 offset),
                  hw (HAL_GPIO_WritePin GPIOG 1 attenuation),
                  hw (HAL_GPIO_WritePin GPIOG 0 amp10),
                  hw (HAL_GPIO_WritePin GPIOB 10 amp5),
                  hw (HAL_GPIO_WritePin GPIOE 15 amp2_5),
                  hw (HAL_GPIO_WritePin GPIOE 14 amp1)]
           else id),
            ADCstop,
            changeADCmode adcmode,
            (if triggermode = 0 then
             seq [(\<lambda>s. s\<lparr>ADCstate := noTrigger\<rparr>),
                  hw (ADC_CR_andnot ADC1 ADC_CR_ADSTART),
                  hw (ADC_CR_andnot ADC2 ADC_CR_ADSTART),
                  disableAWDIT ADC1,
                  disableAWDIT ADC2,
                  enableDMAIT handle_GPDMA2_Channel0,
                  enableDMAIT handle_GPDMA2_Channel1]
           else if triggermode = 1 then
             seq [(\<lambda>s. s\<lparr>ADCstate := preTrigger\<rparr>),
                  hw (ADC_CR_or ADC1 ADC_CR_ADSTART),
                  hw (ADC_CR_or ADC2 ADC_CR_ADSTART),
                  disableDMAIT handle_GPDMA2_Channel0,
                  disableDMAIT handle_GPDMA2_Channel1,
                  (if chan = 0 then
                   arm_AWD ADC1 LL_ADC_AWD_CHANNEL_0_REG (triggerval + 15) (triggerval - 15)
                     ((triggerval - 35) div 2 ^ 4) ((triggerval - 65) div 2 ^ 4)
                 else
                   arm_AWD ADC2 LL_ADC_AWD_CHANNEL_3_REG (triggerval + 15) (triggerval - 15)
                     ((triggerval - 35) div 2 ^ 4) ((triggerval - 65) div 2 ^ 4))]
           else if triggermode = 2 then
             seq [(\<lambda>s. s\<lparr>ADCstate := preTrigger\<rparr>),
                  disableDMAIT handle_GPDMA2_Channel0,
                  disableDMAIT handle_GPDMA2_Channel1,
                  (if chan = 0 then
                   arm_AWD ADC1 LL_ADC_AWD_CHANNEL_0_REG (triggerval + 15) (triggerval - 15)
                     ((triggerval + 65) div 2 ^ 4) ((triggerval + 35) div 2 ^ 4)
                 else
                   arm_AWD ADC2 LL_ADC_AWD_CHANNEL_3_REG (triggerval + 15) (triggerval - 15)
                     ((triggerval + 65) div 2 ^ 4) ((triggerval + 35) div 2 ^ 4))]
           else
             (\<lambda>s. s\<lparr>ADCstate := noTrigger\<rparr>)),
            ADCstart,
            hw (ADC_CR_or ADC1 ADC_CR_ADEN),
            hw (ADC_CR_or ADC2 ADC_CR_ADEN),
            hw (ADC_CR_or ADC1 ADC_CR_ADSTART),
            hw (ADC_CR_or ADC2 ADC_CR_ADSTART)])"

definition got_LOGIC_SET :: "(hw_op \<Rightarrow> HAL_StatusTypeDef) \<Rightarrow> u8 list \<Rightarrow> dev \<Rightarrow> stop + dev" where
  "got_LOGIC_SET hal p =
     steps [
       returns (seq [SendAck,
                     (\<lambda>s. s\<lparr>trigPin := ucast (LOGIC_SET_triggerpin p),
                     trigEdge := ucast (LOGIC_SET_triggeredge p),
                     period16 := LOGIC_SET_period16 p,
                     prescaler16 := LOGIC_SET_prescaler p,
                     period32 := LOGIC_SET_period32 p\<rparr>)]),
       (if LOGIC_SET_control p = 1 then
          steps [returns (seq [hw (HAL_TIM_PWM_Start_IT TIM5),
                               hw (HAL_TIM_PWM_Stop TIM5),
                               hw (HAL_TIM_Base_Stop TIM16)]),
                 changeLogic hal,
                 returns (seq [hw (HAL_TIM_PWM_Start_IT TIM5),
                               (\<lambda>s. s\<lparr>Logicstate := preTrigger\<rparr>)])]
        else
          returns (seq [hw (HAL_TIM_PWM_Stop_IT TIM5),
                        hw (HAL_TIM_Base_Stop TIM16),
                        (\<lambda>s. s\<lparr>Logicstate := preTrigger\<rparr>)]))]"

text \<open>\<open>CDC_Transmit_FS("nopacket", sizeof("nopacket"))\<close>: the eight letters and the
  terminating zero.\<close>

definition nopacket :: tx_frame where
  "nopacket = Bytes (map of_char ''nopacket'' @ [0])"

definition got_unknown :: "dev \<Rightarrow> dev" where
  "got_unknown = hw (CDC_Transmit_FS nopacket)"

text \<open>The \<open>else\<close> branch of \<open>if (!BULK_BUFF_RECV)\<close>: the frame is lookup-table data.
  \<open>memcpy\<close> must stay inside \<open>awg_lut\<close>.\<close>

definition got_bulk :: "u8 list \<Rightarrow> dev \<Rightarrow> stop + dev" where
  "got_bulk p s =
     (case BULK_BUFF s of
        None \<Rightarrow> Inl OutOfBounds
      | Some off \<Rightarrow>
          if off + 64 > AWG_NUM_CHAN * (AWG_SAMPLES * 2) then Inl OutOfBounds
          else Inr ((seq [(\<lambda>s. s\<lparr>awg_lut := (\<lambda>i. if off \<le> i \<and> i < off + 64 then p ! (i - off)
                                             else awg_lut s i),
                              BULK_BUFF := Some (off + 64),
                              BULK_BUFF_RECV := BULK_BUFF_RECV s - 64\<rparr>),
                          (\<lambda>s. if BULK_BUFF_RECV s = 0 then SendAck s else s)]) s))"

text \<open>Everything between \<open>pauseTransmit=1;\<close> and \<open>pauseTransmit=0;\<close>.\<close>

definition GotCDC_body :: "(hw_op \<Rightarrow> HAL_StatusTypeDef) \<Rightarrow> u8 list \<Rightarrow> dev \<Rightarrow> stop + dev" where
  "GotCDC_body hal p s =
     (if BULK_BUFF_RECV s = 0 then
        (if packet_type p = 0 then returns (got_HandShake p) s
         else if packet_type p = 1 then got_AWG_SET p s
         else if packet_type p = 2 then returns (got_ADC_SET p) s
         else if packet_type p = 3 then got_LOGIC_SET hal p s
         else returns got_unknown s)
      else got_bulk p s)"

text \<open>The handler, statement by statement: \<open>pauseTransmit=1;\<close>, the dispatch, and
  \<open>pauseTransmit=0;\<close>.\<close>

definition GotCDC_stmts ::
  "(hw_op \<Rightarrow> HAL_StatusTypeDef) \<Rightarrow> u8 list \<Rightarrow> (dev \<Rightarrow> stop + dev) list" where
  "GotCDC_stmts hal p =
     [returns (\<lambda>s. s\<lparr>pauseTransmit := 1\<rparr>),
      GotCDC_body hal p,
      returns (\<lambda>s. s\<lparr>pauseTransmit := 0\<rparr>)]"

definition GotCDC_64B_Packet ::
  "(hw_op \<Rightarrow> HAL_StatusTypeDef) \<Rightarrow> u8 list \<Rightarrow> dev \<Rightarrow> stop + dev" where
  "GotCDC_64B_Packet hal p = steps (GotCDC_stmts hal p)"

section \<open>main.c: callbacks, the scheduler loop\<close>

definition HAL_ADC_ConvHalfCpltCallback :: "dev \<Rightarrow> dev" where
  "HAL_ADC_ConvHalfCpltCallback s = s\<lparr>halfcomplete := 1\<rparr>"

definition HAL_ADC_ConvCpltCallback :: "dev \<Rightarrow> dev" where
  "HAL_ADC_ConvCpltCallback =
     seq [hw (HAL_GPIO_WritePin GPIOD 6 0),
          hw (HAL_GPIO_TogglePin GPIOD 7),
          ADCstop,
          (\<lambda>s. if ADCstate s = noTrigger then ADCstop s else s),
          (\<lambda>s. s\<lparr>fullcomplete := 1\<rparr>)]"

text \<open>\<open>memcpy(dst, &buf[off], sizeof(uint16_t)*datalength)\<close> from an array of \<open>cap\<close>
  elements.\<close>

definition window :: "(nat \<Rightarrow> u16) \<Rightarrow> nat \<Rightarrow> int \<Rightarrow> u16 list option" where
  "window buf cap off =
     (if 0 \<le> off \<and> nat off + datalength \<le> cap
      then Some (map (\<lambda>i. buf (nat off + i)) [0..<datalength])
      else None)"

definition sendData :: "int \<Rightarrow> int \<Rightarrow> dev \<Rightarrow> dev" where
  "sendData adco lgco s =
     hw (CDC_Transmit_FS (DATA \<lparr>
           DATA_packet_type = 5,
           DATA_adcpos = word_of_int adco,
           DATA_logicpos = word_of_int lgco,
           DATA_oscch1 = window (adc_buff s) ADC_BUFF adco,
           DATA_oscch2 = window (adc_buff1 s) ADC_BUFF adco,
           DATA_logic = window (Logic_buff s) LOGIC_BUFF lgco\<rparr>)) s"

definition HAL_TIM_PeriodElapsedCallback :: "TIM_HandleTypeDef \<Rightarrow> dev \<Rightarrow> dev" where
  "HAL_TIM_PeriodElapsedCallback htim =
     (if Instance htim = TIM16 then
        seq [(\<lambda>s. s\<lparr>Logicstate := postTrigger, logicpos := 0\<rparr>),
             hw (HAL_TIM_PWM_Stop_IT TIM5),
             hw (HAL_TIM_Base_Stop_IT TIM16)]
      else id)"

text \<open>The edge tests of the capture callback.  \<open>pastValue&=trigPin\<close> and
  \<open>currentValue&=trigPin\<close> are assignments used as conditions.\<close>

definition start_trigger :: "dev \<Rightarrow> dev" where
  "start_trigger = seq [(\<lambda>s. s\<lparr>Logicstate := triggerState\<rparr>),
                        hw (HAL_TIM_Base_Start_IT TIM16)]"

definition falling_edge_test :: "dev \<Rightarrow> dev" where
  "falling_edge_test =
     seq [(\<lambda>s. s\<lparr>pastValue := pastValue s AND ucast (trigPin s)\<rparr>),
          (\<lambda>s. if pastValue s \<noteq> 0
              then (if currentValue s AND ucast (trigPin s) = 0 then start_trigger s else s)
              else s)]"

definition rising_edge_test :: "dev \<Rightarrow> dev" where
  "rising_edge_test s =
     (if pastValue s AND ucast (trigPin s) = 0
      then (seq [(\<lambda>s. s\<lparr>currentValue := currentValue s AND ucast (trigPin s)\<rparr>),
                 (\<lambda>s. if currentValue s \<noteq> 0 then start_trigger s else s)]) s
      else s)"

definition HAL_TIM_PWM_PulseFinishedCallback ::
  "TIM_HandleTypeDef \<Rightarrow> u32 \<Rightarrow> dev \<Rightarrow> stop + dev" where
  "HAL_TIM_PWM_PulseFinishedCallback htim GPIOF_IDR =
     steps [
       returns (
         seq [(\<lambda>s. s\<lparr>currentValue := ucast GPIOF_IDR\<rparr>),
              (\<lambda>s. if Channel htim = HAL_TIM_ACTIVE_CHANNEL_1 then
                   (if Logicstate s = preTrigger then
                      (seq [(\<lambda>s. if trigEdge s = 0 then falling_edge_test s else s),
                            (\<lambda>s. if trigEdge s = 1 then rising_edge_test s else s)]) s
                    else s)
                 else s)]),
       (\<lambda>s. if unat (logicWritePointer s) < LOGIC_BUFF
             then Inr (s\<lparr>Logic_buff := (Logic_buff s)(unat (logicWritePointer s) := currentValue s)\<rparr>)
             else Inl OutOfBounds),
       returns (
         seq [(\<lambda>s. s\<lparr>logicWritePointer := logicWritePointer s + 1\<rparr>),
              (\<lambda>s. if unat (logicWritePointer s) \<ge> LOGIC_BUFF then s\<lparr>logicWritePointer := 0\<rparr> else s),
              (\<lambda>s. s\<lparr>pastValue := currentValue s\<rparr>)])]"

text \<open>The handle with which the callback is invoked.  The vendor interrupt routine calls
  it for a capture/compare interrupt that has been enabled, after marking the channel
  active.  The firmware enables only that of TIM5 channel 1
  (\<open>HAL_TIM_PWM_Start_IT(&htim5, TIM_CHANNEL_1)\<close>: main.c 407, DACprocess.c 273 and 277);
  every other timer is started without interrupt or with its update interrupt.\<close>

definition TIM5_CC1 :: TIM_HandleTypeDef where
  "TIM5_CC1 = \<lparr>Instance = TIM5, Channel = HAL_TIM_ACTIVE_CHANNEL_1\<rparr>"

text \<open>The body of \<open>while (1)\<close> in \<open>main\<close>, in its three parts: the oscilloscope switch
  (guarded by the local \<open>adcen\<close>, which is 1 and never assigned), the logic-analyzer switch,
  and the transmission block.\<close>

definition adcen :: int where "adcen = 1"

definition main_ADC_switch :: "dev \<Rightarrow> dev" where
  "main_ADC_switch s =
     (case ADCstate s of
        noTrigger \<Rightarrow>
          (seq [(\<lambda>s. if adcpos s > 30000 - 1 then
                   (seq [(\<lambda>s. s\<lparr>adcsend := 0, adcpos := 0, shadowCount := 0\<rparr>),
                         hw (TIM_EGR_assign_UG TIM17),
                         ADCstart]) s
                 else s),
                (\<lambda>s. if uint (shadowCount s) - uint (adcpos s) > 0 \<and> pauseTransmit s = 0
                    then s\<lparr>adcsend := 1\<rparr> else s)]) s
      | preTrigger \<Rightarrow>
          (if triggerType s = 2
           then s\<lparr>adcpos := 0, shadowCount := 0, ADCstate := triggerState\<rparr>
           else s)
      | triggerState \<Rightarrow>
          (if shadowCount s \<ge> triggerDuration s
           then (seq [ADCstop,
                      (\<lambda>s. s\<lparr>ADCstate := postTrigger\<rparr>)]) s
           else s)
      | postTrigger \<Rightarrow>
          (if adcpos s > 30000 - 1 then
             (seq [(\<lambda>s. s\<lparr>adcsend := 0, adcpos := 0, shadowCount := 0, triggerType := 0,
                     ADCstate := preTrigger\<rparr>),
                   ADCstart,
                   hw (delay_us 10),
                   hw (HAL_NVIC_EnableIRQ ADC1),
                   hw (HAL_GPIO_TogglePin GPIOD 4)]) s
           else if pauseTransmit s = 0 then s\<lparr>adcsend := 1\<rparr>
           else s))"

definition main_Logic_switch :: "dev \<Rightarrow> dev" where
  "main_Logic_switch s =
     (case Logicstate s of
        noTrigger \<Rightarrow> s
      | preTrigger \<Rightarrow> s
      | triggerState \<Rightarrow> s
      | postTrigger \<Rightarrow>
          (seq [(\<lambda>s. s\<lparr>trigger := 0\<rparr>),
                (\<lambda>s. if unat (logicpos s) \<ge> LOGIC_BUFF then
                    (seq [memset_Logic_buff,
                          (\<lambda>s. s\<lparr>logicpos := 0, logicsend := 0\<rparr>),
                          hw (HAL_TIM_PWM_Start_IT TIM5),
                          (\<lambda>s. s\<lparr>Logicstate := preTrigger\<rparr>)]) s
                  else s\<lparr>logicsend := 1, logicpos := logicpos s + of_nat datalength\<rparr>)]) s)"

definition main_send :: "dev \<Rightarrow> dev" where
  "main_send s =
     (if (adcsend s = 1 \<or> logicsend s = 1) \<and> pauseTransmit s = 0 then
        (seq [(if adcsend s = 1 \<and> logicsend s = 1 then
            seq [sendData (uint (adcpos s)) (uint (logicpos s)),
                 (\<lambda>s. s\<lparr>adcpos := adcpos s + of_nat datalength\<rparr>),
                 (\<lambda>s. s\<lparr>logicpos := logicpos s + of_nat datalength\<rparr>)]
          else if adcsend s = 0 \<and> logicsend s = 1 then
            seq [sendData 40000 (uint (logicpos s)),
                 (\<lambda>s. s\<lparr>logicpos := logicpos s + of_nat datalength\<rparr>)]
          else if adcsend s = 1 \<and> logicsend s = 0 then
            seq [sendData (uint (adcpos s)) 40000,
                 (\<lambda>s. s\<lparr>adcpos := adcpos s + of_nat datalength\<rparr>)]
          else id),
              (\<lambda>s. s\<lparr>adcsend := 0, logicsend := 0\<rparr>),
              hw (delay_us 150)]) s
      else s)"

definition main_loop_body :: "dev \<Rightarrow> dev" where
  "main_loop_body =
     seq [(if adcen = 1 then main_ADC_switch else id),
          main_Logic_switch,
          main_send]"

section \<open>stm32h5xx_it.c\<close>

text \<open>The bit masks \<open>ADC_ISR_AWD1\<close> and \<open>ADC_ISR_AWD2\<close> come from the device header,
  which is not among the sources; they are parameters.  Each handler reads the
  interrupt status register twice; the two values read are its inputs \<open>isr\<close> and \<open>isr'\<close>.\<close>

definition gotAWD1 :: "adc_inst \<Rightarrow> dev \<Rightarrow> dev" where
  "gotAWD1 hadc = seq [hw (LL_ADC_DisableIT hadc LL_ADC_AWD1),
                       hw (ADC_ISR_or hadc LL_ADC_AWD1)]"

definition gotAWD2 :: "adc_inst \<Rightarrow> dev \<Rightarrow> dev" where
  "gotAWD2 hadc = seq [hw (LL_ADC_DisableIT hadc LL_ADC_AWD2),
                       hw (ADC_ISR_or hadc LL_ADC_AWD2)]"

definition ADC1_IRQHandler :: "u32 \<Rightarrow> u32 \<Rightarrow> u32 \<Rightarrow> u32 \<Rightarrow> dev \<Rightarrow> dev" where
  "ADC1_IRQHandler ADC_ISR_AWD1 ADC_ISR_AWD2 isr isr' =
     seq [(\<lambda>s. if firstTrigger s = 0 then s\<lparr>firstTrigger := firstTrigger s + 1\<rparr>
           else
             (seq [(\<lambda>s. if isr AND ADC_ISR_AWD2 \<noteq> 0 then s\<lparr>triggerType := 1\<rparr> else s),
                   (\<lambda>s. if isr' AND ADC_ISR_AWD1 \<noteq> 0 then
                        (if triggerType s = 1 then
                           (seq [hw (HAL_GPIO_TogglePin GPIOD 5),
                                 (\<lambda>s. s\<lparr>triggerType := 2, firstTrigger := 0\<rparr>),
                                 hw (HAL_NVIC_DisableIRQ ADC1)]) s
                         else s)
                      else s)]) s),
          hw (HAL_ADC_IRQHandler ADC1)]"

text \<open>In \<open>(ADC2->ISR & ADC_ISR_AWD1) & triggerType==1\<close> the comparison binds tighter
  than \<open>&\<close>: the masked status is and-ed with the 0/1 result of \<open>triggerType==1\<close>.\<close>

definition ADC2_IRQHandler :: "u32 \<Rightarrow> u32 \<Rightarrow> u32 \<Rightarrow> u32 \<Rightarrow> dev \<Rightarrow> dev" where
  "ADC2_IRQHandler ADC_ISR_AWD1 ADC_ISR_AWD2 isr isr' =
     seq [(\<lambda>s. if isr AND ADC_ISR_AWD2 \<noteq> 0
           then (seq [(\<lambda>s. s\<lparr>triggerType := 1\<rparr>),
                      hw (ADC_ISR_or ADC2 LL_ADC_AWD2)]) s
           else s),
          (\<lambda>s. if (isr' AND ADC_ISR_AWD1) AND (if triggerType s = 1 then 1 else 0) \<noteq> 0 then
               (seq [hw (HAL_GPIO_TogglePin GPIOD 5),
                     (\<lambda>s. s\<lparr>triggerType := 2\<rparr>),
                     hw (ADC_ISR_or ADC2 LL_ADC_AWD1),
                     gotAWD2 ADC2,
                     gotAWD1 ADC2]) s
             else s),
          hw (HAL_ADC_IRQHandler ADC2)]"

definition TIM17_IRQHandler :: "dev \<Rightarrow> dev" where
  "TIM17_IRQHandler =
     seq [(\<lambda>s. if shadowCount s < 30000 then s\<lparr>shadowCount := shadowCount s + 100\<rparr> else s),
          hw (HAL_TIM_IRQHandler TIM17)]"

section \<open>Executions\<close>

text \<open>The entry points of the firmware after start-up: a received USB frame (with the
  statuses the vendor library will return while it is handled), one pass of the main
  loop, the interrupt handlers that touch the firmware's variables, and the callbacks the
  vendor library makes.  Each runs to completion: an interrupt that arrives during a pass
  of the main loop is taken as arriving between two passes.  The timer callbacks take any
  handle; the one the capture interrupt passes is \<open>TIM5_CC1\<close>.\<close>

datatype event =
    USB_frame "hw_op \<Rightarrow> HAL_StatusTypeDef" "u8 list"
  | Main_loop
  | IRQ_ADC1 u32 u32
  | IRQ_ADC2 u32 u32
  | IRQ_TIM17
  | ADC_ConvHalfCplt
  | ADC_ConvCplt
  | TIM_PeriodElapsed TIM_HandleTypeDef
  | TIM_PWM_PulseFinished TIM_HandleTypeDef u32

fun step :: "u32 \<Rightarrow> u32 \<Rightarrow> event \<Rightarrow> dev \<Rightarrow> stop + dev" where
  "step m1 m2 (USB_frame hal p) s = GotCDC_64B_Packet hal p s"
| "step m1 m2 Main_loop s = Inr (main_loop_body s)"
| "step m1 m2 (IRQ_ADC1 isr isr') s = Inr (ADC1_IRQHandler m1 m2 isr isr' s)"
| "step m1 m2 (IRQ_ADC2 isr isr') s = Inr (ADC2_IRQHandler m1 m2 isr isr' s)"
| "step m1 m2 IRQ_TIM17 s = Inr (TIM17_IRQHandler s)"
| "step m1 m2 ADC_ConvHalfCplt s = Inr (HAL_ADC_ConvHalfCpltCallback s)"
| "step m1 m2 ADC_ConvCplt s = Inr (HAL_ADC_ConvCpltCallback s)"
| "step m1 m2 (TIM_PeriodElapsed htim) s = Inr (HAL_TIM_PeriodElapsedCallback htim s)"
| "step m1 m2 (TIM_PWM_PulseFinished htim idr) s = HAL_TIM_PWM_PulseFinishedCallback htim idr s"

fun exec :: "u32 \<Rightarrow> u32 \<Rightarrow> event list \<Rightarrow> dev \<Rightarrow> stop + dev" where
  "exec m1 m2 [] s = Inr s"
| "exec m1 m2 (e # es) s = (case step m1 m2 e s of Inl x \<Rightarrow> Inl x | Inr s' \<Rightarrow> exec m1 m2 es s')"

text \<open>The globals as their initialisers and the start-up code of \<open>main\<close> leave them
  (\<open>ADCstate = noTrigger\<close>, \<open>Logicstate = preTrigger\<close>, \<open>TIM1->CCR1 = TIM1->CCR2 = 2048\<close>),
  the timer periods and prescalers as the \<open>MX_TIMx_Init\<close> functions request them, the
  buffers zeroed, counters at 0 and the log empty.\<close>

definition power_on :: dev where
  "power_on = \<lparr>
     awg_lut = (\<lambda>_. 0), BULK_BUFF_RECV = 0, BULK_BUFF = None,
     numSamples = (\<lambda>_. 0), phaseARR = (\<lambda>_. 0), ARR_hold = (\<lambda>_. 0),
     adc_buff = (\<lambda>_. 0), adc_buff1 = (\<lambda>_. 0), halfcomplete = 0, fullcomplete = 0,
     pauseTransmit = 0, shadowCount = 0, adcpos = 0, triggerType = 0, triggerDuration = 100,
     adcsend = 0, Logic_buff = (\<lambda>_. 0), logicpos = 0, logicsend = 0, trigger = 0,
     Logicstate = preTrigger, ADCstate = noTrigger,
     period16 = 0xFFFF, prescaler16 = 1, period32 = 0x00008CA0, trigPin = 0, trigEdge = 0,
     pastValue = 0, logicWritePointer = 0, currentValue = 0,
     firstTrigger = 0,
     TIM1_CCR1 = 2048, TIM1_CCR2 = 2048,
     TIM6_ARR = 7585, TIM6_PSC = 3 - 1, TIM6_CNT = 0,
     TIM7_ARR = 7585, TIM7_PSC = 3 - 1, TIM7_CNT = 0,
     TIM8_PSC = 25 - 1, TIM8_ARR = 1, TIM8_CNT = 0,
     TIM17_PSC = 500 - 1, TIM17_ARR = 9, TIM17_CNT = 0,
     SMP_ADC1_CHANNEL_0 = LL_ADC_SAMPLINGTIME_2CYCLES_5,
     SMP_ADC2_CHANNEL_3 = LL_ADC_SAMPLINGTIME_2CYCLES_5,
     hw_log = [] \<rparr>"

text \<open>The environment in which every vendor call succeeds, and the acknowledgment
  frame built by \<open>SendAck\<close>.\<close>

definition hal_ok :: "hw_op \<Rightarrow> HAL_StatusTypeDef" where
  "hal_ok c = HAL_OK"

definition ack :: tx_frame where
  "ack = TRANS_Packet 0 ACK_STRING"

text \<open>The frames an execution has sent when it returns.\<close>

definition frames_of :: "stop + dev \<Rightarrow> stop + tx_frame list" where
  "frames_of r = map_sum id (\<lambda>s. sent_frames (hw_log s)) r"

fun is_USB_frame :: "event \<Rightarrow> bool" where
  "is_USB_frame (USB_frame hal p) = True"
| "is_USB_frame _ = False"

text \<open>Reading a component of the state an execution returns.\<close>

definition observe :: "(dev \<Rightarrow> 'a) \<Rightarrow> stop + dev \<Rightarrow> stop + 'a" where
  "observe f r = map_sum id f r"

definition Logic_sample :: "nat \<Rightarrow> dev \<Rightarrow> u16" where
  "Logic_sample i s = Logic_buff s i"

text \<open>An ADC interrupt whose first status read shows the AWD2 bit, and one whose second
  status read shows the AWD1 bit.\<close>

fun awd2_seen :: "u32 \<Rightarrow> event \<Rightarrow> bool" where
  "awd2_seen m2 (IRQ_ADC1 isr isr') = (isr AND m2 \<noteq> 0)"
| "awd2_seen m2 (IRQ_ADC2 isr isr') = (isr AND m2 \<noteq> 0)"
| "awd2_seen m2 _ = False"

fun awd1_seen :: "u32 \<Rightarrow> event \<Rightarrow> bool" where
  "awd1_seen m1 (IRQ_ADC1 isr isr') = (isr' AND m1 \<noteq> 0)"
| "awd1_seen m1 (IRQ_ADC2 isr isr') = (isr' AND m1 \<noteq> 0)"
| "awd1_seen m1 _ = False"

text \<open>The same, for the interrupts of one converter: channel 0 is converted by ADC1,
  channel 1 by ADC2.\<close>

fun awd2_seen_on :: "adc_inst \<Rightarrow> u32 \<Rightarrow> event \<Rightarrow> bool" where
  "awd2_seen_on ADC1 m2 (IRQ_ADC1 isr isr') = (isr AND m2 \<noteq> 0)"
| "awd2_seen_on ADC2 m2 (IRQ_ADC2 isr isr') = (isr AND m2 \<noteq> 0)"
| "awd2_seen_on a m2 _ = False"

text \<open>The capture interrupt of the logic analyzer, the port reading \<open>idr\<close>.\<close>

definition logic_capture :: "u32 \<Rightarrow> event" where
  "logic_capture idr = TIM_PWM_PulseFinished TIM5_CC1 idr"

text \<open>What holds of the globals whenever no entry point is running: no command is being
  handled, neither subsystem is marked ready, the oscilloscope cursor is at most one
  window past the last full window, and the logic write index is inside its buffer.\<close>

definition steady :: "dev \<Rightarrow> bool" where
  "steady s \<longleftrightarrow> pauseTransmit s = 0 \<and> adcsend s = 0 \<and> logicsend s = 0
      \<and> unat (adcpos s) \<le> 30007 \<and> unat (logicWritePointer s) < LOGIC_BUFF"

text \<open>How often TIM16 has been started.\<close>

definition TIM16_starts :: "dev \<Rightarrow> nat" where
  "TIM16_starts s = count_list (hw_log s) (HAL_TIM_Base_Start_IT TIM16)"

section \<open>Basic facts\<close>

lemma sent_frames_Nil: "sent_frames [] = []"
  by (simp add: sent_frames_def map_filter_def)

lemma sent_frames_Cons:
  "sent_frames (c # l) = (case c of CDC_Transmit_FS f \<Rightarrow> [f] | _ \<Rightarrow> []) @ sent_frames l"
  by (cases c) (simp_all add: sent_frames_def map_filter_def)

lemma sent_frames_append: "sent_frames (l @ l') = sent_frames l @ sent_frames l'"
  by (simp add: sent_frames_def map_filter_def)

lemmas sent_frames_simps = sent_frames_append sent_frames_Cons sent_frames_Nil

lemmas run_defs = returns_def hw_def checked_def SendAck_def ADCstop_def ADCstart_def
  disableDMAIT_def enableDMAIT_def enableAWDIT_def disableAWDIT_def arm_AWD_def
  memset_Logic_buff_def MX_TIM16_Init_def MX_TIM5_Init_def changeLogic_def
  got_HandShake_def got_unknown_def

lemma ACK_STRING_bytes: "ACK_STRING = [0x53, 0x54, 0x4D, 0x41, 0x57, 0x47, 0x32, 0x33]"
  by (simp add: ACK_STRING_def)

lemma HS_STRING_bytes: "HS_STRING = [0x49, 0x4E, 0x49, 0x54]"
  by (simp add: HS_STRING_def)

lemma upt_HS_STRING_LEN: "[0..<HS_STRING_LEN] = [0, 1, 2, 3]"
  by (simp add: HS_STRING_LEN_def upt_rec)

lemma handshake_match_iff:
  "handshake_match p \<noteq> 0 \<longleftrightarrow> map (handshake_string p) [0..<HS_STRING_LEN] = HS_STRING"
  by (simp add: handshake_match_def upt_HS_STRING_LEN HS_STRING_bytes)

text \<open>Unfolding everything, for running the handler on concrete frames.\<close>

lemmas eval_defs = GotCDC_64B_Packet_def GotCDC_stmts_def GotCDC_body_def got_AWG_SET_def got_ADC_SET_def
  got_LOGIC_SET_def got_bulk_def run_defs power_on_def packet_type_def frames_of_def hal_ok_def
  Let_def AWG_SET_channel_def AWG_SET_gain_def AWG_SET_PSC_def AWG_SET_ARR_def
  AWG_SET_CCR_offset_def AWG_SET_numSamples_def AWG_SET_phaseARR_def rd16_def rd32_def
  AWG_NUM_CHAN_def AWG_SAMPLES_def handshake_match_def handshake_string_def upt_HS_STRING_LEN
  HS_STRING_bytes ack_def sent_frames_simps

lemma GotCDC_unfold:
  "GotCDC_64B_Packet hal p s =
     (case GotCDC_body hal p (s\<lparr>pauseTransmit := 1\<rparr>) of
        Inl e \<Rightarrow> Inl e | Inr s2 \<Rightarrow> Inr (s2\<lparr>pauseTransmit := 0\<rparr>))"
  by (simp add: GotCDC_64B_Packet_def GotCDC_stmts_def returns_def split: sum.splits)

lemma changeSamplingtime_frame:
  "pauseTransmit (changeSamplingtime t s) = pauseTransmit s"
  "hw_log (changeSamplingtime t s) = hw_log s"
  by (simp_all add: changeSamplingtime_def)

lemma changeADCmode_frame:
  "pauseTransmit (changeADCmode m s) = pauseTransmit s"
  "hw_log (changeADCmode m s) = hw_log s"
  by (simp_all add: changeADCmode_def changeSamplingtime_frame)

lemma exec_append:
  "exec m1 m2 (xs @ ys) s = (case exec m1 m2 xs s of Inl e \<Rightarrow> Inl e | Inr s' \<Rightarrow> exec m1 m2 ys s')"
  by (induction xs arbitrary: s) (auto split: sum.splits)

lemma exec_snoc_Inr:
  assumes "exec m1 m2 (es @ [e]) s0 = Inr s"
  obtains sm where "exec m1 m2 es s0 = Inr sm" "step m1 m2 e sm = Inr s"
  using assms by (auto simp: exec_append split: sum.splits)

subsection \<open>What the command handler leaves unchanged\<close>

lemma changeSamplingtime_keeps:
  "triggerType (changeSamplingtime t s) = triggerType s"
  "adcsend (changeSamplingtime t s) = adcsend s"
  "logicsend (changeSamplingtime t s) = logicsend s"
  "adcpos (changeSamplingtime t s) = adcpos s"
  "logicWritePointer (changeSamplingtime t s) = logicWritePointer s"
  by (simp_all add: changeSamplingtime_def)

lemma changeADCmode_keeps:
  "triggerType (changeADCmode m s) = triggerType s"
  "adcsend (changeADCmode m s) = adcsend s"
  "logicsend (changeADCmode m s) = logicsend s"
  "adcpos (changeADCmode m s) = adcpos s"
  "logicWritePointer (changeADCmode m s) = logicWritePointer s"
  by (simp_all add: changeADCmode_def changeSamplingtime_keeps)

lemma got_ADC_SET_keeps:
  "triggerType (got_ADC_SET p s) = triggerType s"
  "adcsend (got_ADC_SET p s) = adcsend s"
  "logicsend (got_ADC_SET p s) = logicsend s"
  "adcpos (got_ADC_SET p s) = 0"
  "logicWritePointer (got_ADC_SET p s) = logicWritePointer s"
  by (simp_all add: got_ADC_SET_def Let_def run_defs changeADCmode_keeps)

lemma got_AWG_SET_keeps:
  assumes "got_AWG_SET p s = Inr s'"
  shows "triggerType s' = triggerType s \<and> adcsend s' = adcsend s \<and> logicsend s' = logicsend s
    \<and> adcpos s' = adcpos s \<and> logicWritePointer s' = logicWritePointer s"
  using assms by (auto simp: got_AWG_SET_def Let_def run_defs split: if_splits)

lemma got_LOGIC_SET_keeps:
  assumes "got_LOGIC_SET hal p s = Inr s'"
  shows "triggerType s' = triggerType s \<and> adcsend s' = adcsend s \<and> logicsend s' = logicsend s
    \<and> adcpos s' = adcpos s \<and> logicWritePointer s' = logicWritePointer s"
  using assms by (auto simp: got_LOGIC_SET_def Let_def run_defs split: if_splits)

lemma got_bulk_keeps:
  assumes "got_bulk p s = Inr s'"
  shows "triggerType s' = triggerType s \<and> adcsend s' = adcsend s \<and> logicsend s' = logicsend s
    \<and> adcpos s' = adcpos s \<and> logicWritePointer s' = logicWritePointer s"
  using assms by (auto simp: got_bulk_def run_defs split: if_splits option.splits)

lemma GotCDC_keeps:
  assumes "GotCDC_64B_Packet hal p s = Inr s'"
  shows "triggerType s' = triggerType s" "adcsend s' = adcsend s" "logicsend s' = logicsend s"
    "logicWritePointer s' = logicWritePointer s" "pauseTransmit s' = 0"
    "adcpos s' = adcpos s \<or> (adcpos s' = 0 \<and> BULK_BUFF_RECV s = 0 \<and> packet_type p = 2)"
proof -
  from assms obtain s2 where b: "GotCDC_body hal p (s\<lparr>pauseTransmit := 1\<rparr>) = Inr s2"
    and s': "s' = s2\<lparr>pauseTransmit := 0\<rparr>"
    by (auto simp: GotCDC_unfold split: sum.splits)
  from b have k: "triggerType s2 = triggerType s \<and> adcsend s2 = adcsend s \<and> logicsend s2 = logicsend s
    \<and> logicWritePointer s2 = logicWritePointer s
    \<and> (adcpos s2 = adcpos s \<or> (adcpos s2 = 0 \<and> BULK_BUFF_RECV s = 0 \<and> packet_type p = 2))"
    by (auto simp: GotCDC_body_def returns_def got_ADC_SET_keeps got_HandShake_def got_unknown_def
        SendAck_def hw_def
        dest: got_AWG_SET_keeps got_LOGIC_SET_keeps got_bulk_keeps split: if_splits)
  from k s' show "triggerType s' = triggerType s" "adcsend s' = adcsend s" "logicsend s' = logicsend s"
    "logicWritePointer s' = logicWritePointer s" "pauseTransmit s' = 0"
    "adcpos s' = adcpos s \<or> (adcpos s' = 0 \<and> BULK_BUFF_RECV s = 0 \<and> packet_type p = 2)"
    by simp_all
qed


subsection \<open>The handler leaves \<open>pauseTransmit\<close> alone between its first and last statement\<close>







subsection \<open>Frames sent by each branch of the handler\<close>

lemma got_HandShake_sent:
  "sent_frames (hw_log (got_HandShake p s)) =
     sent_frames (hw_log s) @ (if handshake_match p \<noteq> 0 then [ack] else [])"
  by (simp add: run_defs sent_frames_simps ack_def)

lemma got_unknown_sent:
  "sent_frames (hw_log (got_unknown s)) = sent_frames (hw_log s) @ [nopacket]"
  by (simp add: run_defs sent_frames_simps)

lemma got_ADC_SET_sent:
  "sent_frames (hw_log (got_ADC_SET p s)) = sent_frames (hw_log s) @ [ack]"
  by (simp add: got_ADC_SET_def Let_def run_defs changeADCmode_frame sent_frames_simps ack_def)

lemma got_AWG_SET_sent:
  "got_AWG_SET p s = Inr s' \<Longrightarrow> sent_frames (hw_log s') = sent_frames (hw_log s) @ [ack]"
  by (auto simp: got_AWG_SET_def Let_def run_defs sent_frames_simps ack_def split: if_splits)

lemma got_LOGIC_SET_sent:
  "got_LOGIC_SET hal p s = Inr s' \<Longrightarrow> sent_frames (hw_log s') = sent_frames (hw_log s) @ [ack]"
  by (auto simp: got_LOGIC_SET_def Let_def run_defs sent_frames_simps ack_def split: if_splits)

lemma got_bulk_sent:
  "got_bulk p s = Inr s' \<Longrightarrow>
   sent_frames (hw_log s') =
     sent_frames (hw_log s) @ (if BULK_BUFF_RECV s = 64 then [ack] else [])"
  by (auto simp: got_bulk_def Let_def run_defs sent_frames_simps ack_def
      split: if_splits option.splits)

lemma GotCDC_body_sent:
  assumes "GotCDC_body hal p s = Inr s'"
  shows "sent_frames (hw_log s') = sent_frames (hw_log s) @
     (if BULK_BUFF_RECV s = 0 then
        (if packet_type p = 0 then
           (if map (handshake_string p) [0..<HS_STRING_LEN] = HS_STRING then [ack] else [])
         else if packet_type p = 1 \<or> packet_type p = 2 \<or> packet_type p = 3 then [ack]
         else [nopacket])
      else (if BULK_BUFF_RECV s = 64 then [ack] else []))"
  using assms
  by (auto simp: GotCDC_body_def returns_def got_HandShake_sent got_unknown_sent got_ADC_SET_sent
        handshake_match_iff
      dest: got_AWG_SET_sent got_LOGIC_SET_sent got_bulk_sent split: if_splits)

section \<open>The transmission-paused flag (claim C3)\<close>




section \<open>One acknowledgment per frame? (claim C2)\<close>

text \<open>
  Claim C2 says that every frame whose first byte is 0, 1, 2 or 3 is answered by exactly
  one acknowledgment frame.  The handler does otherwise in two places.  A frame of 64 zero
  bytes has tag 0 and a magic string that is not \<open>INIT\<close>: nothing is sent.  And a
  waveform command (tag 1) announces a lookup-table transfer, so the frames that follow
  are stored as data whatever their first byte is: two identical waveform commands in a
  row produce one acknowledgment, not two.
\<close>

theorem one_ack_per_frame_counterexample:
  "frames_of (GotCDC_64B_Packet hal_ok (replicate 64 0) power_on) = Inr []
   \<and> frames_of (exec 0x80 0x100
        [USB_frame hal_ok (1 # replicate 63 0), USB_frame hal_ok (1 # replicate 63 0)]
        power_on) = Inr [ack]"
  by (simp add: eval_defs)

text \<open>
  Claim C2, amended.  Whenever the handler returns, the frames it has sent are: with no
  lookup-table transfer pending (\<open>BULK_BUFF_RECV = 0\<close>), exactly one acknowledgment for
  tag 1, 2 or 3; for tag 0 exactly one acknowledgment if the magic string is \<open>INIT\<close> and
  nothing otherwise; for any other tag exactly the one diagnostic frame \<open>nopacket\<close>.  With a
  transfer pending the frame is data, and one acknowledgment is sent exactly when it
  completes the transfer (64 bytes were outstanding).
\<close>

theorem GotCDC_frames_sent:
  assumes "GotCDC_64B_Packet hal p s = Inr s'"
  shows "sent_frames (hw_log s') = sent_frames (hw_log s) @
     (if BULK_BUFF_RECV s = 0 then
        (if packet_type p = 0 then
           (if map (handshake_string p) [0..<HS_STRING_LEN] = HS_STRING then [ack] else [])
         else if packet_type p = 1 \<or> packet_type p = 2 \<or> packet_type p = 3 then [ack]
         else [nopacket])
      else (if BULK_BUFF_RECV s = 64 then [ack] else []))"
proof -
  from assms obtain s2 where b: "GotCDC_body hal p (s\<lparr>pauseTransmit := 1\<rparr>) = Inr s2"
    and s': "s' = s2\<lparr>pauseTransmit := 0\<rparr>"
    by (auto simp: GotCDC_unfold split: sum.splits)
  from GotCDC_body_sent[OF b] s' show ?thesis by simp
qed

theorem GotCDC_frames_sent_witness:
  "(\<exists>s'. GotCDC_64B_Packet hal_ok (2 # replicate 63 0) power_on = Inr s'
      \<and> sent_frames (hw_log s') = [ack])
   \<and> (\<exists>s'. GotCDC_64B_Packet hal_ok (9 # replicate 63 0) power_on = Inr s'
      \<and> sent_frames (hw_log s') = [nopacket])"
proof -
  obtain s1 where 1: "GotCDC_64B_Packet hal_ok (2 # replicate 63 0) power_on = Inr s1"
    by (simp add: GotCDC_unfold GotCDC_body_def packet_type_def power_on_def returns_def)
  obtain s2 where 2: "GotCDC_64B_Packet hal_ok (9 # replicate 63 0) power_on = Inr s2"
    by (simp add: GotCDC_unfold GotCDC_body_def packet_type_def power_on_def returns_def)
  from GotCDC_frames_sent[OF 1] have "sent_frames (hw_log s1) = [ack]"
    by (simp add: power_on_def packet_type_def sent_frames_Nil)
  moreover from GotCDC_frames_sent[OF 2] have "sent_frames (hw_log s2) = [nopacket]"
    by (simp add: power_on_def packet_type_def sent_frames_Nil)
  ultimately show ?thesis using 1 2 by blast
qed

section \<open>The handshake (claim C6)\<close>

text \<open>
  Claim C6 says that a frame with first byte 0 is acknowledged exactly when its magic
  string is \<open>INIT\<close>.  While a lookup-table transfer is pending the first byte is not looked
  at.  After a waveform command announcing 32 samples (64 bytes), a frame of 64 zero bytes
  completes the transfer and is acknowledged although its magic string is not \<open>INIT\<close>; after
  one announcing 128 bytes, a well-formed handshake frame is stored as data and gets no
  acknowledgment (the only acknowledgment is the waveform command's).
\<close>

theorem handshake_ack_counterexample:
  "frames_of (exec 0x80 0x100
      [USB_frame hal_ok ([1, 0, 0, 0, 0, 0, 0, 0, 0, 32, 0, 0, 0] @ replicate 51 0),
       USB_frame hal_ok (replicate 64 0)] power_on) = Inr [ack, ack]
   \<and> frames_of (exec 0x80 0x100
      [USB_frame hal_ok (1 # replicate 63 0),
       USB_frame hal_ok ([0, 0x49, 0x4E, 0x49, 0x54] @ replicate 59 0)] power_on) = Inr [ack]"
  by (simp add: eval_defs)

text \<open>
  Claim C6, amended.  With no lookup-table transfer pending, handling a frame whose first
  byte is 0 always returns, and the frames it sends are one acknowledgment if the four
  bytes after the tag equal \<open>INIT\<close>, and none otherwise.
\<close>

theorem handshake_ack_iff_magic:
  assumes "BULK_BUFF_RECV s = 0" and "packet_type p = 0"
  shows "\<exists>s'. GotCDC_64B_Packet hal p s = Inr s' \<and>
     sent_frames (hw_log s') = sent_frames (hw_log s) @
       (if map (handshake_string p) [0..<HS_STRING_LEN] = HS_STRING then [ack] else [])"
proof -
  have b: "GotCDC_body hal p (s\<lparr>pauseTransmit := 1\<rparr>)
           = Inr (got_HandShake p (s\<lparr>pauseTransmit := 1\<rparr>))"
    using assms by (simp add: GotCDC_body_def returns_def)
  from GotCDC_body_sent[OF b] assms
  show ?thesis by (simp add: GotCDC_unfold b)
qed

theorem handshake_ack_iff_magic_witness:
  "(\<exists>s'. GotCDC_64B_Packet hal_ok ([0, 0x49, 0x4E, 0x49, 0x54] @ replicate 59 0) power_on = Inr s'
      \<and> sent_frames (hw_log s') = [ack])
   \<and> (\<exists>s'. GotCDC_64B_Packet hal_ok ([0, 0x49, 0x4E, 0x49, 0x55] @ replicate 59 0) power_on = Inr s'
      \<and> sent_frames (hw_log s') = [])"
  using handshake_ack_iff_magic[of power_on "[0, 0x49, 0x4E, 0x49, 0x54] @ replicate 59 0" hal_ok]
    handshake_ack_iff_magic[of power_on "[0, 0x49, 0x4E, 0x49, 0x55] @ replicate 59 0" hal_ok]
  by (simp add: power_on_def packet_type_def handshake_string_def upt_HS_STRING_LEN HS_STRING_bytes
      sent_frames_Nil)

section \<open>Sampling mode outside 0..11 (claim C8)\<close>

lemma changeADCmode_default: "11 < mode \<Longrightarrow> changeADCmode mode = changeADCmode 0"
  by (auto simp: changeADCmode_def)

lemma changeADCmode_0:
  "TIM8_PSC (changeADCmode 0 s) = 24" "TIM8_ARR (changeADCmode 0 s) = 1"
  "TIM17_PSC (changeADCmode 0 s) = 499" "TIM17_ARR (changeADCmode 0 s) = 9"
  "SMP_ADC1_CHANNEL_0 (changeADCmode 0 s) = LL_ADC_SAMPLINGTIME_2CYCLES_5"
  "SMP_ADC2_CHANNEL_3 (changeADCmode 0 s) = LL_ADC_SAMPLINGTIME_2CYCLES_5"
  by (simp_all add: changeADCmode_def changeSamplingtime_def)

lemma got_ADC_SET_adcmode_only:
  assumes "length p = 64" "11 < ADC_SET_adcmode p"
  shows "got_ADC_SET p = got_ADC_SET (p[2 := 0])"
  using assms
  by (simp add: got_ADC_SET_def ADC_SET_channel_def ADC_SET_adcmode_def ADC_SET_triggermode_def
      ADC_SET_triggerval_def ADC_SET_offset_def ADC_SET_attenuation_def ADC_SET_amp10_def
      ADC_SET_amp5_def ADC_SET_amp2_5_def ADC_SET_amp1_def rd16_def changeADCmode_default)

text \<open>
  Claim C8.  For an AcquisitionSet command (tag 2, handled as a command) whose mode byte
  is above 11: \<open>changeADCmode\<close> does what it does for mode 0; the whole handler has the
  same result as for the same frame with mode byte 0; and it returns, having sent the
  acknowledgment, with TIM8 at prescaler 24 and period 1, TIM17 at prescaler 499 and
  period 9, and both ADC channels at the 2.5-cycle sampling time.
\<close>

theorem AcquisitionSet_mode_fallback:
  assumes "BULK_BUFF_RECV s = 0" and "length p = 64" and "packet_type p = 2"
    and "11 < ADC_SET_adcmode p"
  shows "changeADCmode (ADC_SET_adcmode p) = changeADCmode 0
     \<and> GotCDC_64B_Packet hal p s = GotCDC_64B_Packet hal (p[2 := 0]) s
     \<and> (\<exists>s'. GotCDC_64B_Packet hal p s = Inr s'
            \<and> TIM8_PSC s' = 25 - 1 \<and> TIM8_ARR s' = 2 - 1
            \<and> TIM17_PSC s' = 500 - 1 \<and> TIM17_ARR s' = 10 - 1
            \<and> SMP_ADC1_CHANNEL_0 s' = LL_ADC_SAMPLINGTIME_2CYCLES_5
            \<and> SMP_ADC2_CHANNEL_3 s' = LL_ADC_SAMPLINGTIME_2CYCLES_5
            \<and> sent_frames (hw_log s') = sent_frames (hw_log s) @ [ack])"
proof (intro conjI)
  show "changeADCmode (ADC_SET_adcmode p) = changeADCmode 0"
    using assms(4) by (rule changeADCmode_default)
  have t: "packet_type (p[2 := 0]) = 2"
    using assms(2,3) by (simp add: packet_type_def)
  show "GotCDC_64B_Packet hal p s = GotCDC_64B_Packet hal (p[2 := 0]) s"
    using assms(1,3) t got_ADC_SET_adcmode_only[OF assms(2,4)]
    by (simp add: GotCDC_unfold GotCDC_body_def returns_def)
  have b: "GotCDC_body hal p (s\<lparr>pauseTransmit := 1\<rparr>)
           = Inr (got_ADC_SET p (s\<lparr>pauseTransmit := 1\<rparr>))"
    using assms(1,3) by (simp add: GotCDC_body_def returns_def)
  have regs: "TIM8_PSC (got_ADC_SET p x) = 24 \<and> TIM8_ARR (got_ADC_SET p x) = 1
      \<and> TIM17_PSC (got_ADC_SET p x) = 499 \<and> TIM17_ARR (got_ADC_SET p x) = 9
      \<and> SMP_ADC1_CHANNEL_0 (got_ADC_SET p x) = LL_ADC_SAMPLINGTIME_2CYCLES_5
      \<and> SMP_ADC2_CHANNEL_3 (got_ADC_SET p x) = LL_ADC_SAMPLINGTIME_2CYCLES_5" for x
    using assms(4)
    by (simp add: got_ADC_SET_def Let_def run_defs changeADCmode_default changeADCmode_0)
  show "\<exists>s'. GotCDC_64B_Packet hal p s = Inr s'
            \<and> TIM8_PSC s' = 25 - 1 \<and> TIM8_ARR s' = 2 - 1
            \<and> TIM17_PSC s' = 500 - 1 \<and> TIM17_ARR s' = 10 - 1
            \<and> SMP_ADC1_CHANNEL_0 s' = LL_ADC_SAMPLINGTIME_2CYCLES_5
            \<and> SMP_ADC2_CHANNEL_3 s' = LL_ADC_SAMPLINGTIME_2CYCLES_5
            \<and> sent_frames (hw_log s') = sent_frames (hw_log s) @ [ack]"
    using regs[of "s\<lparr>pauseTransmit := 1\<rparr>"] got_ADC_SET_sent[of p "s\<lparr>pauseTransmit := 1\<rparr>"]
    by (simp add: GotCDC_unfold b)
qed

theorem AcquisitionSet_mode_fallback_witness:
  "changeADCmode 200 = changeADCmode 0
   \<and> GotCDC_64B_Packet hal_ok ([2, 0, 200] @ replicate 61 0) power_on
       = GotCDC_64B_Packet hal_ok ([2, 0, 0] @ replicate 61 0) power_on
   \<and> (\<exists>s'. GotCDC_64B_Packet hal_ok ([2, 0, 200] @ replicate 61 0) power_on = Inr s'
          \<and> TIM8_ARR s' = 1 \<and> TIM17_ARR s' = 9)"
proof -
  have h: "BULK_BUFF_RECV power_on = 0" "length ([2, 0, 200] @ replicate 61 (0::u8)) = 64"
    "packet_type ([2, 0, 200] @ replicate 61 0) = 2"
    "11 < ADC_SET_adcmode ([2, 0, 200] @ replicate 61 0)"
    by (simp_all add: power_on_def packet_type_def ADC_SET_adcmode_def)
  have m: "ADC_SET_adcmode ([2, 0, 200] @ replicate 61 0) = 200"
    and u: "([2, 0, 200] @ replicate 61 (0::u8))[2 := 0] = [2, 0, 0] @ replicate 61 0"
    by (simp_all add: ADC_SET_adcmode_def)
  note T = AcquisitionSet_mode_fallback[OF h, of hal_ok, unfolded m u]
  from T obtain s' where
    "GotCDC_64B_Packet hal_ok ([2, 0, 200] @ replicate 61 0) power_on = Inr s'"
    "TIM8_ARR s' = 2 - 1" "TIM17_ARR s' = 10 - 1"
    by blast
  then have "\<exists>s'. GotCDC_64B_Packet hal_ok ([2, 0, 200] @ replicate 61 0) power_on = Inr s'
          \<and> TIM8_ARR s' = 1 \<and> TIM17_ARR s' = 9"
    by simp
  with T show ?thesis by blast
qed

section \<open>Phase of the two generator timers (claim C5)\<close>

lemma ucast_diff_down:
  "(ucast ((ucast (a::u16) :: u32) - ucast (b::u16)) :: u16) = a - b"
proof -
  have "is_down (ucast :: u32 \<Rightarrow> u16)" by (simp add: is_down)
  then have "(ucast ((word_of_int (uint a - uint b)) :: u32) :: u16) = word_of_int (uint a - uint b)"
    by (rule ucast_down_wi)
  then have "(ucast ((word_of_int (uint a - uint b)) :: u32) :: u16) = a - b"
    by (simp only: word_sub_wi)
  then show ?thesis by simp
qed

lemma got_AWG_SET_effect:
  assumes "got_AWG_SET p s = Inr s'"
  shows "unat (AWG_SET_channel p) < AWG_NUM_CHAN"
    and "phaseARR s' = (phaseARR s)(unat (AWG_SET_channel p) := AWG_SET_phaseARR p)"
    and "ARR_hold s' = (ARR_hold s)((if AWG_SET_channel p = 0 then 0 else 1) := AWG_SET_ARR p)"
    and "TIM6_CNT s' = ucast (phaseARR s' 0) - ucast (ARR_hold s' 1)"
    and "TIM7_CNT s' = ucast (phaseARR s' 1) - ucast (ARR_hold s' 0)"
    and "BULK_BUFF_RECV s' = word_of_int (if uint (AWG_SET_numSamples p) < 32 then 128
                                 else uint (AWG_SET_numSamples p) * 2)"
  using assms
  by (auto simp: got_AWG_SET_def Let_def run_defs unat_eq_0 split: if_splits)

lemma got_bulk_effect:
  assumes "got_bulk p s = Inr s'"
  shows "phaseARR s' = phaseARR s" "ARR_hold s' = ARR_hold s"
    "BULK_BUFF_RECV s' = BULK_BUFF_RECV s - 64"
  using assms
  by (auto simp: got_bulk_def run_defs split: option.splits if_splits)

lemma GotCDC_AWG_SET_effect:
  assumes "GotCDC_64B_Packet hal p s = Inr s'" "BULK_BUFF_RECV s = 0" "packet_type p = 1"
  shows "unat (AWG_SET_channel p) < AWG_NUM_CHAN"
    and "phaseARR s' = (phaseARR s)(unat (AWG_SET_channel p) := AWG_SET_phaseARR p)"
    and "ARR_hold s' = (ARR_hold s)((if AWG_SET_channel p = 0 then 0 else 1) := AWG_SET_ARR p)"
    and "TIM6_CNT s' = ucast (phaseARR s' 0) - ucast (ARR_hold s' 1)"
    and "TIM7_CNT s' = ucast (phaseARR s' 1) - ucast (ARR_hold s' 0)"
    and "BULK_BUFF_RECV s' = word_of_int (if uint (AWG_SET_numSamples p) < 32 then 128
                                 else uint (AWG_SET_numSamples p) * 2)"
proof -
  from assms obtain s2 where b: "got_AWG_SET p (s\<lparr>pauseTransmit := 1\<rparr>) = Inr s2"
    and s': "s' = s2\<lparr>pauseTransmit := 0\<rparr>"
    by (auto simp: GotCDC_unfold GotCDC_body_def split: sum.splits)
  note e = got_AWG_SET_effect[OF b]
  show "unat (AWG_SET_channel p) < AWG_NUM_CHAN" by (rule e(1))
  show "phaseARR s' = (phaseARR s)(unat (AWG_SET_channel p) := AWG_SET_phaseARR p)"
    using e(2) s' by simp
  show "ARR_hold s' = (ARR_hold s)((if AWG_SET_channel p = 0 then 0 else 1) := AWG_SET_ARR p)"
    using e(3) s' by simp
  show "TIM6_CNT s' = ucast (phaseARR s' 0) - ucast (ARR_hold s' 1)" using e(4) s' by simp
  show "TIM7_CNT s' = ucast (phaseARR s' 1) - ucast (ARR_hold s' 0)" using e(5) s' by simp
  show "BULK_BUFF_RECV s' = word_of_int (if uint (AWG_SET_numSamples p) < 32 then 128
                                 else uint (AWG_SET_numSamples p) * 2)" using e(6) s' by simp
qed

lemma GotCDC_bulk_effect:
  assumes "GotCDC_64B_Packet hal p s = Inr s'" "BULK_BUFF_RECV s \<noteq> 0"
  shows "phaseARR s' = phaseARR s" "ARR_hold s' = ARR_hold s"
    "BULK_BUFF_RECV s' = BULK_BUFF_RECV s - 64"
proof -
  from assms obtain s2 where b: "got_bulk p (s\<lparr>pauseTransmit := 1\<rparr>) = Inr s2"
    and s': "s' = s2\<lparr>pauseTransmit := 0\<rparr>"
    by (auto simp: GotCDC_unfold GotCDC_body_def split: sum.splits)
  from got_bulk_effect[OF b] s'
  show "phaseARR s' = phaseARR s" "ARR_hold s' = ARR_hold s"
    "BULK_BUFF_RECV s' = BULK_BUFF_RECV s - 64" by simp_all
qed

text \<open>Nothing but the command handler touches the generator's variables.\<close>

lemma main_ADC_switch_awg:
  "BULK_BUFF_RECV (main_ADC_switch s) = BULK_BUFF_RECV s"
  "BULK_BUFF (main_ADC_switch s) = BULK_BUFF s"
  "phaseARR (main_ADC_switch s) = phaseARR s"
  "ARR_hold (main_ADC_switch s) = ARR_hold s"
  by (cases "ADCstate s"; simp add: main_ADC_switch_def hw_def ADCstart_def ADCstop_def)+

lemma main_Logic_switch_awg:
  "BULK_BUFF_RECV (main_Logic_switch s) = BULK_BUFF_RECV s"
  "BULK_BUFF (main_Logic_switch s) = BULK_BUFF s"
  "phaseARR (main_Logic_switch s) = phaseARR s"
  "ARR_hold (main_Logic_switch s) = ARR_hold s"
  by (cases "Logicstate s"; simp add: main_Logic_switch_def hw_def memset_Logic_buff_def)+

lemma main_send_awg:
  "BULK_BUFF_RECV (main_send s) = BULK_BUFF_RECV s"
  "BULK_BUFF (main_send s) = BULK_BUFF s"
  "phaseARR (main_send s) = phaseARR s"
  "ARR_hold (main_send s) = ARR_hold s"
  by (simp_all add: main_send_def sendData_def hw_def)

lemma main_loop_body_awg:
  "BULK_BUFF_RECV (main_loop_body s) = BULK_BUFF_RECV s"
  "BULK_BUFF (main_loop_body s) = BULK_BUFF s"
  "phaseARR (main_loop_body s) = phaseARR s"
  "ARR_hold (main_loop_body s) = ARR_hold s"
  by (simp_all add: main_loop_body_def adcen_def main_ADC_switch_awg main_Logic_switch_awg
      main_send_awg)

lemma ADC2_IRQHandler_awg:
  "BULK_BUFF_RECV (ADC2_IRQHandler m1 m2 isr isr' s) = BULK_BUFF_RECV s"
  "BULK_BUFF (ADC2_IRQHandler m1 m2 isr isr' s) = BULK_BUFF s"
  "phaseARR (ADC2_IRQHandler m1 m2 isr isr' s) = phaseARR s"
  "ARR_hold (ADC2_IRQHandler m1 m2 isr isr' s) = ARR_hold s"
  by (simp_all add: ADC2_IRQHandler_def hw_def gotAWD1_def gotAWD2_def)

lemma callback_awg:
  assumes "HAL_TIM_PWM_PulseFinishedCallback htim idr s = Inr s'"
  shows "BULK_BUFF_RECV s' = BULK_BUFF_RECV s" "BULK_BUFF s' = BULK_BUFF s"
    "phaseARR s' = phaseARR s" "ARR_hold s' = ARR_hold s"
  using assms
  by (auto simp: HAL_TIM_PWM_PulseFinishedCallback_def returns_def rising_edge_test_def
        falling_edge_test_def start_trigger_def hw_def split: if_splits)

lemma step_other_awg:
  assumes "step m1 m2 e s = Inr s'" and "\<not> is_USB_frame e"
  shows "BULK_BUFF_RECV s' = BULK_BUFF_RECV s \<and> BULK_BUFF s' = BULK_BUFF s
    \<and> phaseARR s' = phaseARR s \<and> ARR_hold s' = ARR_hold s"
proof (cases e)
  case (USB_frame hal p)
  with assms(2) show ?thesis by simp
next
  case Main_loop
  with assms(1) show ?thesis by (auto simp: main_loop_body_awg)
next
  case (IRQ_ADC1 isr isr')
  with assms(1) show ?thesis by (auto simp: ADC1_IRQHandler_def hw_def)
next
  case (IRQ_ADC2 isr isr')
  with assms(1) show ?thesis by (auto simp: ADC2_IRQHandler_awg)
next
  case IRQ_TIM17
  with assms(1) show ?thesis by (auto simp: TIM17_IRQHandler_def hw_def)
next
  case ADC_ConvHalfCplt
  with assms(1) show ?thesis by (auto simp: HAL_ADC_ConvHalfCpltCallback_def)
next
  case ADC_ConvCplt
  with assms(1) show ?thesis by (auto simp: HAL_ADC_ConvCpltCallback_def hw_def ADCstop_def)
next
  case (TIM_PeriodElapsed htim)
  with assms(1) show ?thesis by (auto simp: HAL_TIM_PeriodElapsedCallback_def hw_def)
next
  case (TIM_PWM_PulseFinished htim idr)
  with assms(1) callback_awg[of htim idr s s'] show ?thesis by simp
qed

lemma upload_completes:
  assumes "unat (BULK_BUFF_RECV s) = 64 * length (filter is_USB_frame es)"
    "exec m1 m2 es s = Inr s'"
  shows "BULK_BUFF_RECV s' = 0 \<and> phaseARR s' = phaseARR s \<and> ARR_hold s' = ARR_hold s"
  using assms
proof (induction es arbitrary: s)
  case Nil
  then show ?case by (simp add: unat_eq_0)
next
  case (Cons e es)
  from Cons.prems(2) obtain s1 where
    s1: "step m1 m2 e s = Inr s1" and r: "exec m1 m2 es s1 = Inr s'"
    by (auto split: sum.splits)
  show ?case
  proof (cases "is_USB_frame e")
    case True
    then obtain hal p where e: "e = USB_frame hal p" by (cases e) auto
    from s1 e have g: "GotCDC_64B_Packet hal p s = Inr s1" by simp
    from Cons.prems(1) True have nz: "BULK_BUFF_RECV s \<noteq> 0" by auto
    note b = GotCDC_bulk_effect[OF g nz]
    have "unat (BULK_BUFF_RECV s1) = unat (BULK_BUFF_RECV s) - 64"
      using Cons.prems(1) True b(3) by (simp add: unat_sub word_le_nat_alt)
    with Cons.prems(1) True have "unat (BULK_BUFF_RECV s1) = 64 * length (filter is_USB_frame es)"
      by simp
    from Cons.IH[OF this r] b show ?thesis by simp
  next
    case False
    note k = step_other_awg[OF s1 False]
    with Cons.prems(1) False have "unat (BULK_BUFF_RECV s1) = 64 * length (filter is_USB_frame es)"
      by simp
    from Cons.IH[OF this r] k show ?thesis by simp
  qed
qed

lemma GotCDC_AWG_SET_returns:
  assumes "BULK_BUFF_RECV s = 0" "packet_type p = 1" "unat (AWG_SET_channel p) < AWG_NUM_CHAN"
  shows "\<exists>s'. GotCDC_64B_Packet hal p s = Inr s'
     \<and> BULK_BUFF s' = Some (unat (AWG_SET_channel p) * (AWG_SAMPLES * 2))"
  using assms
  by (simp add: GotCDC_unfold GotCDC_body_def got_AWG_SET_def Let_def run_defs)

lemma GotCDC_bulk_returns:
  assumes "BULK_BUFF_RECV s \<noteq> 0" "BULK_BUFF s = Some off"
    "off + 64 \<le> AWG_NUM_CHAN * (AWG_SAMPLES * 2)"
  shows "\<exists>s'. GotCDC_64B_Packet hal p s = Inr s' \<and> BULK_BUFF s' = Some (off + 64)
     \<and> BULK_BUFF_RECV s' = BULK_BUFF_RECV s - 64"
  using assms
  by (simp add: GotCDC_unfold GotCDC_body_def got_bulk_def run_defs)

lemma upload_returns:
  assumes "list_all is_USB_frame es" "unat (BULK_BUFF_RECV s) = 64 * length es"
    "BULK_BUFF s = Some off" "off + 64 * length es \<le> AWG_NUM_CHAN * (AWG_SAMPLES * 2)"
  shows "\<exists>s'. exec m1 m2 es s = Inr s' \<and> BULK_BUFF_RECV s' = 0"
  using assms
proof (induction es arbitrary: s off)
  case Nil
  then show ?case by (simp add: unat_eq_0)
next
  case (Cons e es)
  from Cons.prems(1) obtain hal p where e: "e = USB_frame hal p" by (cases e) auto
  from Cons.prems(2) have nz: "BULK_BUFF_RECV s \<noteq> 0" by auto
  from Cons.prems(4) have "off + 64 \<le> AWG_NUM_CHAN * (AWG_SAMPLES * 2)" by simp
  from GotCDC_bulk_returns[OF nz Cons.prems(3) this, of hal p]
  obtain s1 where s1: "GotCDC_64B_Packet hal p s = Inr s1" "BULK_BUFF s1 = Some (off + 64)"
    "BULK_BUFF_RECV s1 = BULK_BUFF_RECV s - 64" by blast
  have "unat (BULK_BUFF_RECV s1) = unat (BULK_BUFF_RECV s) - 64"
    using Cons.prems(2) s1(3) by (simp add: unat_sub word_le_nat_alt)
  with Cons.prems(2) have u: "unat (BULK_BUFF_RECV s1) = 64 * length es" by simp
  from Cons.prems(4) have "(off + 64) + 64 * length es \<le> AWG_NUM_CHAN * (AWG_SAMPLES * 2)" by simp
  from Cons.IH[OF _ u s1(2) this] Cons.prems(1)
  obtain s' where "exec m1 m2 es s1 = Inr s'" "BULK_BUFF_RECV s' = 0" by auto
  with s1(1) e show ?case by simp
qed

text \<open>
  Claim C5 speaks of a waveform command for channel 0 followed by one for channel 1.  The
  first command announces a lookup-table transfer (64 bytes below), and while it is
  pending the dispatch is skipped: the second frame, received right after the first, is
  stored as table data.  With phase 5 and period 100 for channel 0, then phase 7 and
  period 200 for channel 1, the counters are left as the first command set them,
  \<open>TIM6->CNT = 5 - 0\<close> and \<open>TIM7->CNT = 0 - 100\<close>, not \<open>5 - 200\<close> and \<open>7 - 100\<close>.
\<close>

theorem waveform_back_to_back_counterexample:
  "AWG_SET_phaseARR ([1, 0, 0, 0, 0, 100, 0, 0, 0, 32, 0, 5, 0] @ replicate 51 0) = 5
   \<and> AWG_SET_ARR ([1, 0, 0, 0, 0, 100, 0, 0, 0, 32, 0, 5, 0] @ replicate 51 0) = 100
   \<and> AWG_SET_phaseARR ([1, 1, 0, 0, 0, 200, 0, 0, 0, 32, 0, 7, 0] @ replicate 51 0) = 7
   \<and> AWG_SET_ARR ([1, 1, 0, 0, 0, 200, 0, 0, 0, 32, 0, 7, 0] @ replicate 51 0) = 200
   \<and> observe TIM6_CNT (exec 0x80 0x100
      [USB_frame hal_ok ([1, 0, 0, 0, 0, 100, 0, 0, 0, 32, 0, 5, 0] @ replicate 51 0),
       USB_frame hal_ok ([1, 1, 0, 0, 0, 200, 0, 0, 0, 32, 0, 7, 0] @ replicate 51 0)] power_on)
       = Inr 5
   \<and> observe TIM7_CNT (exec 0x80 0x100
      [USB_frame hal_ok ([1, 0, 0, 0, 0, 100, 0, 0, 0, 32, 0, 5, 0] @ replicate 51 0),
       USB_frame hal_ok ([1, 1, 0, 0, 0, 200, 0, 0, 0, 32, 0, 7, 0] @ replicate 51 0)] power_on)
       = Inr (0 - 100)
   \<and> observe BULK_BUFF_RECV (exec 0x80 0x100
      [USB_frame hal_ok ([1, 0, 0, 0, 0, 100, 0, 0, 0, 32, 0, 5, 0] @ replicate 51 0),
       USB_frame hal_ok ([1, 1, 0, 0, 0, 200, 0, 0, 0, 32, 0, 7, 0] @ replicate 51 0)] power_on)
       = Inr 0"
  by (simp add: observe_def eval_defs)

text \<open>
  Claim C5, amended.  A waveform command for channel 0 is received while no transfer is
  pending; the lookup-table transfer it announced follows, in as many 64-byte frames as
  the announced byte count, with any interrupts, callbacks and loop passes in between;
  then a waveform command for channel 1 is received.  When the handler returns from the
  second command, \<open>TIM6->CNT\<close> holds the first command's phase minus the second command's
  period and \<open>TIM7->CNT\<close> holds the second command's phase minus the first command's
  period: as 32-bit register values (both operands zero-extended, the difference
  wrapping), and, in the low 16 bits that the counters use, as the 16-bit wrapping
  difference.  The arrays \<open>phaseARR\<close> and \<open>ARR_hold\<close> hold the commanded phases and
  periods.  When nothing but the table frames comes in between and the table fits into
  \<open>awg_lut\<close>, handling returns from all of these frames.
\<close>

theorem waveform_phase_roundtrip:
  assumes "BULK_BUFF_RECV s = 0"
    and "packet_type c0 = 1" and "AWG_SET_channel c0 = 0"
    and "packet_type c1 = 1" and "AWG_SET_channel c1 = 1"
    and "64 * length (filter is_USB_frame mid) =
           unat (word_of_int (if uint (AWG_SET_numSamples c0) < 32 then 128
                              else uint (AWG_SET_numSamples c0) * 2) :: u16)"
  shows "(exec m1 m2 (USB_frame hal0 c0 # mid @ [USB_frame hal1 c1]) s = Inr s' \<longrightarrow>
         TIM6_CNT s' = ucast (AWG_SET_phaseARR c0) - ucast (AWG_SET_ARR c1)
       \<and> TIM7_CNT s' = ucast (AWG_SET_phaseARR c1) - ucast (AWG_SET_ARR c0)
       \<and> (ucast (TIM6_CNT s') :: u16) = AWG_SET_phaseARR c0 - AWG_SET_ARR c1
       \<and> (ucast (TIM7_CNT s') :: u16) = AWG_SET_phaseARR c1 - AWG_SET_ARR c0
       \<and> phaseARR s' 0 = AWG_SET_phaseARR c0 \<and> phaseARR s' 1 = AWG_SET_phaseARR c1
       \<and> ARR_hold s' 0 = AWG_SET_ARR c0 \<and> ARR_hold s' 1 = AWG_SET_ARR c1)
     \<and> (list_all is_USB_frame mid \<and> 64 * length mid \<le> AWG_NUM_CHAN * (AWG_SAMPLES * 2) \<longrightarrow>
         (\<exists>s'. exec m1 m2 (USB_frame hal0 c0 # mid @ [USB_frame hal1 c1]) s = Inr s'))"
proof (rule conjI; rule impI)
  assume r: "exec m1 m2 (USB_frame hal0 c0 # mid @ [USB_frame hal1 c1]) s = Inr s'"
  then obtain s1 s2 where
    1: "GotCDC_64B_Packet hal0 c0 s = Inr s1"
    and 2: "exec m1 m2 mid s1 = Inr s2"
    and 3: "GotCDC_64B_Packet hal1 c1 s2 = Inr s'"
    by (auto simp: exec_append split: sum.splits)
  note a = GotCDC_AWG_SET_effect[OF 1 assms(1,2)]
  have "unat (BULK_BUFF_RECV s1) = 64 * length (filter is_USB_frame mid)"
    using a(6) assms(6) by simp
  from upload_completes[OF this 2]
  have u: "BULK_BUFF_RECV s2 = 0" "phaseARR s2 = phaseARR s1" "ARR_hold s2 = ARR_hold s1"
    by simp_all
  note b = GotCDC_AWG_SET_effect[OF 3 u(1) assms(4)]
  have p0: "phaseARR s' 0 = AWG_SET_phaseARR c0" using b(2) u(2) a(2) assms(3,5) by simp
  have p1: "phaseARR s' 1 = AWG_SET_phaseARR c1" using b(2) assms(5) by simp
  have h0: "ARR_hold s' 0 = AWG_SET_ARR c0" using b(3) u(3) a(3) assms(3,5) by simp
  have h1: "ARR_hold s' 1 = AWG_SET_ARR c1" using b(3) assms(5) by simp
  from b(4,5) p0 p1 h0 h1
  show "TIM6_CNT s' = ucast (AWG_SET_phaseARR c0) - ucast (AWG_SET_ARR c1)
       \<and> TIM7_CNT s' = ucast (AWG_SET_phaseARR c1) - ucast (AWG_SET_ARR c0)
       \<and> (ucast (TIM6_CNT s') :: u16) = AWG_SET_phaseARR c0 - AWG_SET_ARR c1
       \<and> (ucast (TIM7_CNT s') :: u16) = AWG_SET_phaseARR c1 - AWG_SET_ARR c0
       \<and> phaseARR s' 0 = AWG_SET_phaseARR c0 \<and> phaseARR s' 1 = AWG_SET_phaseARR c1
       \<and> ARR_hold s' 0 = AWG_SET_ARR c0 \<and> ARR_hold s' 1 = AWG_SET_ARR c1"
    by (simp add: ucast_diff_down)
next
  assume m: "list_all is_USB_frame mid \<and> 64 * length mid \<le> AWG_NUM_CHAN * (AWG_SAMPLES * 2)"
  have ch0: "unat (AWG_SET_channel c0) < AWG_NUM_CHAN" "unat (AWG_SET_channel c1) < AWG_NUM_CHAN"
    using assms(3,5) by (simp_all add: AWG_NUM_CHAN_def)
  from GotCDC_AWG_SET_returns[OF assms(1,2) ch0(1), of hal0]
  obtain s1 where 1: "GotCDC_64B_Packet hal0 c0 s = Inr s1" and o: "BULK_BUFF s1 = Some 0"
    using assms(3) by auto
  note a = GotCDC_AWG_SET_effect[OF 1 assms(1,2)]
  from m have f: "filter is_USB_frame mid = mid" by (simp add: list_all_iff)
  have n: "unat (BULK_BUFF_RECV s1) = 64 * length mid"
    using a(6) assms(6) f by simp
  from m have "0 + 64 * length mid \<le> AWG_NUM_CHAN * (AWG_SAMPLES * 2)" by simp
  from upload_returns[OF _ n o this, of m1 m2] m
  obtain s2 where 2: "exec m1 m2 mid s1 = Inr s2" and z: "BULK_BUFF_RECV s2 = 0" by blast
  from GotCDC_AWG_SET_returns[OF z assms(4) ch0(2), of hal1]
  obtain s3 where 3: "GotCDC_64B_Packet hal1 c1 s2 = Inr s3" by blast
  from 1 2 3 show "\<exists>s'. exec m1 m2 (USB_frame hal0 c0 # mid @ [USB_frame hal1 c1]) s = Inr s'"
    by (simp add: exec_append)
qed

text \<open>Phase 5 and period 100, a table of 64 bytes, phase 7 and period 200; the same with a
  shadow-timer interrupt before the table frame.\<close>

theorem waveform_phase_roundtrip_witness:
  "(\<exists>s'. exec 0x80 0x100
      [USB_frame hal_ok ([1, 0, 0, 0, 0, 100, 0, 0, 0, 32, 0, 5, 0] @ replicate 51 0),
       USB_frame hal_ok (replicate 64 0),
       USB_frame hal_ok ([1, 1, 0, 0, 0, 200, 0, 0, 0, 32, 0, 7, 0] @ replicate 51 0)]
      power_on = Inr s'
    \<and> TIM6_CNT s' = 5 - 200 \<and> TIM7_CNT s' = 7 - 100)
   \<and> (\<exists>s'. exec 0x80 0x100
      [USB_frame hal_ok ([1, 0, 0, 0, 0, 100, 0, 0, 0, 32, 0, 5, 0] @ replicate 51 0),
       IRQ_TIM17,
       USB_frame hal_ok (replicate 64 0),
       USB_frame hal_ok ([1, 1, 0, 0, 0, 200, 0, 0, 0, 32, 0, 7, 0] @ replicate 51 0)]
      power_on = Inr s'
    \<and> TIM6_CNT s' = 5 - 200 \<and> TIM7_CNT s' = 7 - 100)"
proof -
  let ?c0 = "[1, 0, 0, 0, 0, 100, 0, 0, 0, 32, 0, 5, 0] @ replicate 51 (0::u8)"
  let ?c1 = "[1, 1, 0, 0, 0, 200, 0, 0, 0, 32, 0, 7, 0] @ replicate 51 (0::u8)"
  let ?up = "[USB_frame hal_ok (replicate 64 0)]"
  let ?up' = "[IRQ_TIM17, USB_frame hal_ok (replicate 64 0)]"
  have h: "BULK_BUFF_RECV power_on = 0"
    "packet_type ?c0 = 1" "AWG_SET_channel ?c0 = 0"
    "packet_type ?c1 = 1" "AWG_SET_channel ?c1 = 1"
    by (simp_all add: power_on_def packet_type_def AWG_SET_channel_def)
  have n: "64 * length (filter is_USB_frame ?up)
       = unat (word_of_int (if uint (AWG_SET_numSamples ?c0) < 32 then 128
                              else uint (AWG_SET_numSamples ?c0) * 2) :: u16)"
    and n': "64 * length (filter is_USB_frame ?up')
       = unat (word_of_int (if uint (AWG_SET_numSamples ?c0) < 32 then 128
                              else uint (AWG_SET_numSamples ?c0) * 2) :: u16)"
    by (simp_all add: AWG_SET_numSamples_def rd16_def)
  have g: "list_all is_USB_frame ?up \<and> 64 * length ?up \<le> AWG_NUM_CHAN * (AWG_SAMPLES * 2)"
    by (simp add: AWG_NUM_CHAN_def AWG_SAMPLES_def)
  have v: "AWG_SET_phaseARR ?c0 = 5" "AWG_SET_ARR ?c0 = 100"
    "AWG_SET_phaseARR ?c1 = 7" "AWG_SET_ARR ?c1 = 200"
    by (simp_all add: AWG_SET_phaseARR_def AWG_SET_ARR_def rd16_def)
  note T = waveform_phase_roundtrip[of power_on ?c0 ?c1 ?up "0x80" "0x100" hal_ok hal_ok, OF h n]
  from T[THEN conjunct2] g
  obtain s' where r: "exec 0x80 0x100 (USB_frame hal_ok ?c0 # ?up @ [USB_frame hal_ok ?c1]) power_on
      = Inr s'"
    by blast
  from T[THEN conjunct1] r
  have "TIM6_CNT s' = 5 - 200 \<and> TIM7_CNT s' = 7 - 100"
    unfolding v by simp
  with r have 1: "\<exists>s'. exec 0x80 0x100 (USB_frame hal_ok ?c0 # ?up @ [USB_frame hal_ok ?c1]) power_on
      = Inr s' \<and> TIM6_CNT s' = 5 - 200 \<and> TIM7_CNT s' = 7 - 100"
    by blast
  note T' = waveform_phase_roundtrip[of power_on ?c0 ?c1 ?up' "0x80" "0x100" hal_ok hal_ok, OF h n']
  obtain t' where r': "exec 0x80 0x100 (USB_frame hal_ok ?c0 # ?up' @ [USB_frame hal_ok ?c1]) power_on
      = Inr t'"
    by (simp add: eval_defs TIM17_IRQHandler_def)
  from T'[THEN conjunct1] r'
  have "TIM6_CNT t' = 5 - 200 \<and> TIM7_CNT t' = 7 - 100"
    unfolding v by simp
  with r' have 2: "\<exists>s'. exec 0x80 0x100 (USB_frame hal_ok ?c0 # ?up' @ [USB_frame hal_ok ?c1]) power_on
      = Inr s' \<and> TIM6_CNT s' = 5 - 200 \<and> TIM7_CNT s' = 7 - 100"
    by blast
  from 1 2 show ?thesis by simp
qed

section \<open>Two-stage trigger confirmation (claim C1)\<close>

lemma main_ADC_switch_triggerType:
  "triggerType (main_ADC_switch s) = triggerType s \<or> triggerType (main_ADC_switch s) = 0"
  by (cases "ADCstate s") (simp_all add: main_ADC_switch_def hw_def ADCstart_def ADCstop_def)

lemma main_Logic_switch_triggerType:
  "triggerType (main_Logic_switch s) = triggerType s"
  by (cases "Logicstate s") (simp_all add: main_Logic_switch_def hw_def memset_Logic_buff_def)

lemma main_send_triggerType:
  "triggerType (main_send s) = triggerType s"
  by (simp add: main_send_def sendData_def hw_def)

lemma main_loop_triggerType:
  "triggerType (main_loop_body s) = triggerType s \<or> triggerType (main_loop_body s) = 0"
  using main_ADC_switch_triggerType[of s]
  by (simp add: main_loop_body_def adcen_def main_Logic_switch_triggerType main_send_triggerType)


lemma ADC1_IRQHandler_triggerType:
  "triggerType (ADC1_IRQHandler m1 m2 isr isr' s) = triggerType s
   \<or> (triggerType (ADC1_IRQHandler m1 m2 isr isr' s) = 1 \<and> isr AND m2 \<noteq> 0)
   \<or> (triggerType (ADC1_IRQHandler m1 m2 isr isr' s) = 2 \<and> isr' AND m1 \<noteq> 0
        \<and> (isr AND m2 \<noteq> 0 \<or> triggerType s = 1))"
  by (simp add: ADC1_IRQHandler_def hw_def)

lemma and_bool_nonzero:
  "(x :: u32) AND (if b then 1 else 0) \<noteq> 0 \<Longrightarrow> b \<and> x \<noteq> 0"
  by (cases b) auto

lemma ADC2_IRQHandler_triggerType:
  "triggerType (ADC2_IRQHandler m1 m2 isr isr' s) = triggerType s
   \<or> (triggerType (ADC2_IRQHandler m1 m2 isr isr' s) = 1 \<and> isr AND m2 \<noteq> 0)
   \<or> (triggerType (ADC2_IRQHandler m1 m2 isr isr' s) = 2 \<and> isr' AND m1 \<noteq> 0
        \<and> (isr AND m2 \<noteq> 0 \<or> triggerType s = 1))"
proof (cases "(isr' AND m1) AND (if triggerType ((if isr AND m2 \<noteq> 0 then s\<lparr>triggerType := 1\<rparr> else s)) = 1 then 1 else 0) \<noteq> 0")
  case True
  from and_bool_nonzero[OF True] show ?thesis
    by (auto simp: ADC2_IRQHandler_def hw_def gotAWD1_def gotAWD2_def split: if_splits)
next
  case False
  then show ?thesis
    by (auto simp: ADC2_IRQHandler_def hw_def gotAWD1_def gotAWD2_def split: if_splits)
qed

text \<open>When bit 0 of the AWD1 mask is clear, the test in \<open>ADC2_IRQHandler\<close> never
  succeeds: the ADC2 handler never sets the flag to 2.\<close>

lemma ADC2_never_confirms:
  assumes "m1 AND 1 = 0" and "triggerType s \<noteq> 2"
  shows "triggerType (ADC2_IRQHandler m1 m2 isr isr' s) \<noteq> 2"
proof -
  have "(isr' AND m1) AND (if b then 1 else 0) = 0" for b
    using assms(1) by (cases b) (simp_all add: and.assoc)
  with assms(2) show ?thesis
    by (simp add: ADC2_IRQHandler_def hw_def)
qed

lemma callback_triggerType:
  "HAL_TIM_PWM_PulseFinishedCallback htim idr s = Inr s' \<Longrightarrow> triggerType s' = triggerType s"
  by (auto simp: HAL_TIM_PWM_PulseFinishedCallback_def returns_def rising_edge_test_def
        falling_edge_test_def start_trigger_def hw_def split: if_splits)

lemma step_triggerType:
  assumes "step m1 m2 e s = Inr s'"
  shows "triggerType s' = triggerType s \<or> triggerType s' = 0
     \<or> (triggerType s' = 1 \<and> awd2_seen m2 e)
     \<or> (triggerType s' = 2 \<and> awd1_seen m1 e \<and> (awd2_seen m2 e \<or> triggerType s = 1))"
proof (cases e)
  case (USB_frame hal p)
  with assms GotCDC_keeps(1)[of hal p s s'] show ?thesis by simp
next
  case Main_loop
  with assms main_loop_triggerType[of s] show ?thesis by auto
next
  case (IRQ_ADC1 isr isr')
  with assms ADC1_IRQHandler_triggerType[of m1 m2 isr isr' s] show ?thesis by auto
next
  case (IRQ_ADC2 isr isr')
  with assms ADC2_IRQHandler_triggerType[of m1 m2 isr isr' s] show ?thesis by auto
next
  case IRQ_TIM17
  with assms show ?thesis by (auto simp: TIM17_IRQHandler_def hw_def)
next
  case ADC_ConvHalfCplt
  with assms show ?thesis by (auto simp: HAL_ADC_ConvHalfCpltCallback_def)
next
  case ADC_ConvCplt
  with assms show ?thesis by (auto simp: HAL_ADC_ConvCpltCallback_def hw_def ADCstop_def)
next
  case (TIM_PeriodElapsed htim)
  with assms show ?thesis by (auto simp: HAL_TIM_PeriodElapsedCallback_def hw_def)
next
  case (TIM_PWM_PulseFinished htim idr)
  with assms callback_triggerType[of htim idr s s'] show ?thesis by simp
qed


lemma triggerType_history:
  assumes "exec m1 m2 es s0 = Inr s" and "triggerType s0 = 0"
  shows "(triggerType s = 1 \<longrightarrow> (\<exists>e' \<in> set es. awd2_seen m2 e'))
       \<and> (triggerType s = 2 \<longrightarrow>
            (\<exists>pre e post sj sk. es = pre @ e # post \<and> exec m1 m2 pre s0 = Inr sj
               \<and> step m1 m2 e sj = Inr sk \<and> triggerType sk = 2 \<and> awd1_seen m1 e
               \<and> (awd2_seen m2 e \<or> (triggerType sj = 1 \<and> (\<exists>e' \<in> set pre. awd2_seen m2 e')))))"
  using assms(1)
proof (induction es arbitrary: s rule: rev_induct)
  case Nil
  with assms(2) show ?case by simp
next
  case (snoc e es)
  from snoc.prems obtain sm where sm: "exec m1 m2 es s0 = Inr sm" and st: "step m1 m2 e sm = Inr s"
    by (rule exec_snoc_Inr)
  note IH = snoc.IH[OF sm]
  from step_triggerType[OF st] consider
      (same) "triggerType s = triggerType sm"
    | (zero) "triggerType s = 0"
    | (one) "triggerType s = 1" "awd2_seen m2 e"
    | (two) "triggerType s = 2" "awd1_seen m1 e" "awd2_seen m2 e \<or> triggerType sm = 1"
    by blast
  then show ?case
  proof cases
    case same
    have "triggerType s = 1 \<longrightarrow> (\<exists>e' \<in> set (es @ [e]). awd2_seen m2 e')"
      using IH same by auto
    moreover have "triggerType s = 2 \<longrightarrow>
            (\<exists>pre e0 post sj sk. es @ [e] = pre @ e0 # post \<and> exec m1 m2 pre s0 = Inr sj
               \<and> step m1 m2 e0 sj = Inr sk \<and> triggerType sk = 2 \<and> awd1_seen m1 e0
               \<and> (awd2_seen m2 e0 \<or> (triggerType sj = 1 \<and> (\<exists>e' \<in> set pre. awd2_seen m2 e'))))"
    proof
      assume "triggerType s = 2"
      with same IH have "\<exists>pre e0 post sj sk. es = pre @ e0 # post
               \<and> exec m1 m2 pre s0 = Inr sj
               \<and> step m1 m2 e0 sj = Inr sk \<and> triggerType sk = 2 \<and> awd1_seen m1 e0
               \<and> (awd2_seen m2 e0 \<or> (triggerType sj = 1 \<and> (\<exists>e' \<in> set pre. awd2_seen m2 e')))"
        by simp
      then obtain pre e0 post sj sk where d: "es = pre @ e0 # post"
        "exec m1 m2 pre s0 = Inr sj" "step m1 m2 e0 sj = Inr sk" "triggerType sk = 2"
        "awd1_seen m1 e0"
        "awd2_seen m2 e0 \<or> (triggerType sj = 1 \<and> (\<exists>e' \<in> set pre. awd2_seen m2 e'))"
        by blast
      from d(1) have "es @ [e] = pre @ e0 # (post @ [e])" by simp
      with d(2-6) show "\<exists>pre e0 post sj sk. es @ [e] = pre @ e0 # post \<and> exec m1 m2 pre s0 = Inr sj
               \<and> step m1 m2 e0 sj = Inr sk \<and> triggerType sk = 2 \<and> awd1_seen m1 e0
               \<and> (awd2_seen m2 e0 \<or> (triggerType sj = 1 \<and> (\<exists>e' \<in> set pre. awd2_seen m2 e')))"
        by blast
    qed
    ultimately show ?thesis by blast
  next
    case zero
    then show ?thesis by simp
  next
    case one
    then show ?thesis by auto
  next
    case two
    have "awd2_seen m2 e \<or> (triggerType sm = 1 \<and> (\<exists>e' \<in> set es. awd2_seen m2 e'))"
      using two(3) IH by auto
    with sm st two(1,2)
    have "\<exists>pre e0 post sj sk. es @ [e] = pre @ e0 # post \<and> exec m1 m2 pre s0 = Inr sj
               \<and> step m1 m2 e0 sj = Inr sk \<and> triggerType sk = 2 \<and> awd1_seen m1 e0
               \<and> (awd2_seen m2 e0 \<or> (triggerType sj = 1 \<and> (\<exists>e' \<in> set pre. awd2_seen m2 e')))"
      by (intro exI[of _ es] exI[of _ e] exI[of _ "[]"] exI[of _ sm] exI[of _ s]) simp
    with two(1) show ?thesis by simp
  qed
qed

text \<open>
  Claim C1 is stated for each channel: channel 0, converted by ADC1, is triggered only
  after ADC1's AWD2 and then ADC1's AWD1, and likewise channel 1 with ADC2.  \<open>triggerType\<close>
  is one variable that both handlers write and test, and nothing records which converter
  raised the first stage.  After power-on, taking bit 7 for AWD1 and bit 8 for AWD2: a
  first ADC1 interrupt uses up the \<open>firstTrigger\<close> test, an ADC2 interrupt reads AWD2 and
  sets the flag to 1, and an ADC1 interrupt that reads AWD1 sets it to 2, although no ADC1
  interrupt has read AWD2.
\<close>

theorem confirmation_across_channels_counterexample:
  "observe triggerType (exec 0x80 0x100 [IRQ_ADC1 0 0, IRQ_ADC2 0x100 0] power_on) = Inr 1
   \<and> observe triggerType (exec 0x80 0x100 [IRQ_ADC1 0 0, IRQ_ADC2 0x100 0, IRQ_ADC1 0 0x80] power_on)
       = Inr 2
   \<and> list_ex (awd2_seen_on ADC1 0x100) [IRQ_ADC1 0 0, IRQ_ADC2 0x100 0, IRQ_ADC1 0 0x80] = False
   \<and> list_ex (awd1_seen 0x80) [IRQ_ADC1 0 0, IRQ_ADC2 0x100 0] = False"
  by (simp add: observe_def ADC1_IRQHandler_def ADC2_IRQHandler_def hw_def power_on_def)

text \<open>
  Claim C1, amended: the two stages may come from either converter.  In any execution that
  starts with the flag at 0 and ends with it at 2, there is an ADC interrupt (of ADC1 or
  ADC2) that set it to 2, whose status read for the AWD1 test had the AWD1 bit set; and
  before that test an AWD2 bit had been read: either in the same interrupt, whose AWD2
  test comes first and sets the flag to 1, or in an earlier ADC interrupt (of ADC1 or
  ADC2), the flag being 1 when the confirming interrupt was taken.  Nothing else sets the
  flag to 2.  This holds for every value of the two bit masks.
\<close>

theorem triggered_only_after_AWD2_then_AWD1:
  assumes "exec m1 m2 es s0 = Inr s" and "triggerType s0 = 0" and "triggerType s = 2"
  shows "\<exists>pre e post sj sk. es = pre @ e # post \<and> exec m1 m2 pre s0 = Inr sj
           \<and> step m1 m2 e sj = Inr sk \<and> triggerType sk = 2 \<and> awd1_seen m1 e
           \<and> (awd2_seen m2 e \<or> (triggerType sj = 1 \<and> (\<exists>e' \<in> set pre. awd2_seen m2 e')))"
  using triggerType_history[OF assms(1,2)] assms(3) by blast

theorem triggered_only_after_AWD2_then_AWD1_witness:
  "\<exists>pre e post sj sk. [IRQ_ADC1 0 0, IRQ_ADC1 0x100 0x80] = pre @ e # post
       \<and> exec 0x80 0x100 pre power_on = Inr sj
       \<and> step 0x80 0x100 e sj = Inr sk \<and> triggerType sk = 2 \<and> awd1_seen 0x80 e
       \<and> (awd2_seen 0x100 e \<or> (triggerType sj = 1 \<and> (\<exists>e' \<in> set pre. awd2_seen 0x100 e')))"
proof -
  have "\<exists>s. exec 0x80 0x100 [IRQ_ADC1 0 0, IRQ_ADC1 0x100 0x80] power_on = Inr s \<and> triggerType s = 2"
    by (simp add: ADC1_IRQHandler_def hw_def power_on_def)
  then obtain s where r: "exec 0x80 0x100 [IRQ_ADC1 0 0, IRQ_ADC1 0x100 0x80] power_on = Inr s"
    and t: "triggerType s = 2" by blast
  have z: "triggerType power_on = 0" by (simp add: power_on_def)
  from triggered_only_after_AWD2_then_AWD1[OF r z t] show ?thesis .
qed

section \<open>An invariant of executions\<close>

lemmas callback_defs = HAL_TIM_PWM_PulseFinishedCallback_def returns_def rising_edge_test_def
  falling_edge_test_def start_trigger_def hw_def

lemmas LOGIC_SET_defs = LOGIC_SET_control_def LOGIC_SET_triggerpin_def LOGIC_SET_triggeredge_def
  LOGIC_SET_period16_def LOGIC_SET_prescaler_def LOGIC_SET_period32_def

lemma cursor_plus_window:
  assumes "\<not> 29999 < (a :: u16)"
  shows "a + of_nat datalength \<noteq> 0" and "unat (a + of_nat datalength) \<le> 30007"
proof -
  from assms have le: "unat a \<le> 29999" by (simp add: word_less_nat_alt)
  then have u: "unat (a + 8) = unat a + 8"
    by (simp add: unat_add_lem[THEN iffD1])
  from u le show "unat (a + of_nat datalength) \<le> 30007" by (simp add: datalength_def)
  from u show "a + of_nat datalength \<noteq> 0"
    by (auto simp: datalength_def)
qed

lemma main_ADC_switch_effect:
  assumes "adcsend s = 0"
  shows "pauseTransmit (main_ADC_switch s) = pauseTransmit s"
    and "logicsend (main_ADC_switch s) = logicsend s"
    and "logicWritePointer (main_ADC_switch s) = logicWritePointer s"
    and "adcsend (main_ADC_switch s) = 0 \<or>
         (adcsend (main_ADC_switch s) = 1 \<and> \<not> 29999 < adcpos (main_ADC_switch s))"
    and "adcpos (main_ADC_switch s) = adcpos s \<or>
         (adcpos (main_ADC_switch s) = 0 \<and> adcsend (main_ADC_switch s) = 0 \<and>
          (ADCstate s = postTrigger \<and> 29999 < adcpos s \<and> ADCstate (main_ADC_switch s) = preTrigger
           \<or> ADCstate s = noTrigger \<and> 29999 < adcpos s \<and> ADCstate (main_ADC_switch s) = noTrigger
           \<or> ADCstate s = preTrigger \<and> triggerType s = 2
                \<and> ADCstate (main_ADC_switch s) = triggerState))"
  using assms
  by (cases "ADCstate s"; simp add: main_ADC_switch_def hw_def ADCstart_def ADCstop_def)+


lemma main_Logic_switch_effect:
  "pauseTransmit (main_Logic_switch s) = pauseTransmit s"
  "adcsend (main_Logic_switch s) = adcsend s"
  "adcpos (main_Logic_switch s) = adcpos s"
  "ADCstate (main_Logic_switch s) = ADCstate s"
  "logicWritePointer (main_Logic_switch s) = logicWritePointer s"
  "logicsend s = 0 \<Longrightarrow> logicsend (main_Logic_switch s) = 0 \<or> logicsend (main_Logic_switch s) = 1"
  by (cases "Logicstate s"; simp add: main_Logic_switch_def hw_def memset_Logic_buff_def)+

lemma main_send_effect:
  assumes "pauseTransmit s = 0" and "adcsend s = 0 \<or> adcsend s = 1"
    and "logicsend s = 0 \<or> logicsend s = 1"
  shows "pauseTransmit (main_send s) = 0" and "adcsend (main_send s) = 0"
    and "logicsend (main_send s) = 0"
    and "ADCstate (main_send s) = ADCstate s"
    and "logicWritePointer (main_send s) = logicWritePointer s"
    and "adcpos (main_send s) = (if adcsend s = 1 then adcpos s + of_nat datalength else adcpos s)"
  using assms by (auto simp: main_send_def sendData_def hw_def)

lemma main_loop_body_effect:
  assumes "steady s"
  shows "steady (main_loop_body s)"
    and "adcpos s \<noteq> 0 \<Longrightarrow> adcpos (main_loop_body s) = 0 \<Longrightarrow>
          ADCstate s = postTrigger \<and> 29999 < adcpos s \<and> ADCstate (main_loop_body s) = preTrigger
           \<or> ADCstate s = noTrigger \<and> 29999 < adcpos s \<and> ADCstate (main_loop_body s) = noTrigger
           \<or> ADCstate s = preTrigger \<and> triggerType s = 2
                \<and> ADCstate (main_loop_body s) = triggerState"
proof -
  let ?A = "main_ADC_switch s"
  let ?B = "main_Logic_switch ?A"
  let ?C = "main_send ?B"
  have C: "main_loop_body s = ?C" by (simp add: main_loop_body_def adcen_def)
  from assms have s0: "pauseTransmit s = 0" "adcsend s = 0" "logicsend s = 0"
    "unat (adcpos s) \<le> 30007" "unat (logicWritePointer s) < LOGIC_BUFF"
    by (simp_all add: steady_def)
  note a = main_ADC_switch_effect[OF s0(2)]
  note b = main_Logic_switch_effect[of ?A]
  have pB: "pauseTransmit ?B = 0" using a(1) b(1) s0(1) by simp
  have aB: "adcsend ?B = 0 \<or> adcsend ?B = 1" using a(4) b(2) by auto
  have lB: "logicsend ?B = 0 \<or> logicsend ?B = 1" using a(2) s0(3) b(6) by simp
  note c = main_send_effect[OF pB aB lB]
  have bound: "unat (adcpos ?C) \<le> 30007"
  proof (cases "adcsend ?B = 1")
    case True
    with a(4) b(2,3) have "\<not> 29999 < adcpos ?B" by auto
    from cursor_plus_window(2)[OF this] c(6) True show ?thesis by simp
  next
    case False
    with c(6) b(3) a(5) s0(4) show ?thesis by auto
  qed
  show "steady (main_loop_body s)"
    unfolding C steady_def using c(1,2,3,5) b(5) a(3) s0(5) bound by simp
  show "ADCstate s = postTrigger \<and> 29999 < adcpos s \<and> ADCstate (main_loop_body s) = preTrigger
           \<or> ADCstate s = noTrigger \<and> 29999 < adcpos s \<and> ADCstate (main_loop_body s) = noTrigger
           \<or> ADCstate s = preTrigger \<and> triggerType s = 2
                \<and> ADCstate (main_loop_body s) = triggerState"
    if nz: "adcpos s \<noteq> 0" and z: "adcpos (main_loop_body s) = 0"
  proof (cases "adcsend ?B = 1")
    case True
    with a(4) b(2,3) have "\<not> 29999 < adcpos ?B" by auto
    from cursor_plus_window(1)[OF this] c(6) True z C show ?thesis by simp
  next
    case False
    with c(6) b(3) z C have "adcpos ?A = 0" by simp
    with a(5) nz c(4) b(4) C show ?thesis by auto
  qed
qed

lemma callback_steady:
  assumes "HAL_TIM_PWM_PulseFinishedCallback htim idr s = Inr s'" and "steady s"
  shows "steady s'" and "adcpos s' = adcpos s"
proof -
  from assms(2) have w: "unat (logicWritePointer s) < LOGIC_BUFF" by (simp add: steady_def)
  then have "unat (logicWritePointer s + 1) = unat (logicWritePointer s) + 1"
    by (simp add: LOGIC_BUFF_def unat_add_lem[THEN iffD1])
  with assms show "steady s'" and "adcpos s' = adcpos s"
    by (auto simp: callback_defs steady_def split: if_splits)
qed


lemma IRQ_keep_steady:
  "steady s \<Longrightarrow> steady (ADC1_IRQHandler m1 m2 isr isr' s)"
  "adcpos (ADC1_IRQHandler m1 m2 isr isr' s) = adcpos s"
  "steady s \<Longrightarrow> steady (ADC2_IRQHandler m1 m2 isr isr' s)"
  "adcpos (ADC2_IRQHandler m1 m2 isr isr' s) = adcpos s"
  "steady s \<Longrightarrow> steady (TIM17_IRQHandler s)"
  "adcpos (TIM17_IRQHandler s) = adcpos s"
  "steady s \<Longrightarrow> steady (HAL_ADC_ConvHalfCpltCallback s)"
  "adcpos (HAL_ADC_ConvHalfCpltCallback s) = adcpos s"
  "steady s \<Longrightarrow> steady (HAL_ADC_ConvCpltCallback s)"
  "adcpos (HAL_ADC_ConvCpltCallback s) = adcpos s"
  "steady s \<Longrightarrow> steady (HAL_TIM_PeriodElapsedCallback htim s)"
  "adcpos (HAL_TIM_PeriodElapsedCallback htim s) = adcpos s"
  by (simp_all add: steady_def ADC1_IRQHandler_def ADC2_IRQHandler_def TIM17_IRQHandler_def
      HAL_ADC_ConvHalfCpltCallback_def HAL_ADC_ConvCpltCallback_def
      HAL_TIM_PeriodElapsedCallback_def gotAWD1_def gotAWD2_def hw_def ADCstop_def)

lemma step_steady:
  assumes "step m1 m2 e s = Inr s'" and "steady s"
  shows "steady s'"
proof (cases e)
  case (USB_frame hal p)
  with assms(1) have g: "GotCDC_64B_Packet hal p s = Inr s'" by simp
  from GotCDC_keeps[OF g] assms(2) show ?thesis by (auto simp: steady_def)
next
  case Main_loop
  with assms main_loop_body_effect(1)[of s] show ?thesis by auto
next
  case (TIM_PWM_PulseFinished htim idr)
  with assms callback_steady(1)[of htim idr s s'] show ?thesis by simp
qed (use assms IRQ_keep_steady in auto)

lemma exec_steady:
  assumes "exec m1 m2 es s = Inr s'" and "steady s"
  shows "steady s'"
  using assms
proof (induction es arbitrary: s)
  case Nil
  then show ?case by simp
next
  case (Cons e es)
  from Cons.prems(1) obtain s1 where 1: "step m1 m2 e s = Inr s1" and 2: "exec m1 m2 es s1 = Inr s'"
    by (auto split: sum.splits)
  from Cons.IH[OF 2 step_steady[OF 1 Cons.prems(2)]] show ?case .
qed

lemma steady_power_on: "steady power_on"
  by (simp add: steady_def power_on_def LOGIC_BUFF_def)

section \<open>Where the oscilloscope cursor is reset (claim C7)\<close>

text \<open>
  Claim C7 says that \<open>adcpos\<close> is reset to zero only on the \<open>postTrigger\<close> to \<open>preTrigger\<close>
  transition.  From power-on, one shadow-timer interrupt and one pass of the main loop
  send the first window and leave the cursor at 8 in \<open>noTrigger\<close>; an AcquisitionSet
  command with trigger mode 0 then runs \<open>ADCstart()\<close>, which puts the cursor back to 0,
  and the phase is \<open>noTrigger\<close> before and after.
\<close>

theorem adcpos_reset_counterexample:
  "observe adcpos (exec 0x80 0x100 [IRQ_TIM17, Main_loop] power_on) = Inr 8
   \<and> observe ADCstate (exec 0x80 0x100 [IRQ_TIM17, Main_loop] power_on) = Inr noTrigger
   \<and> observe adcpos (exec 0x80 0x100
        [IRQ_TIM17, Main_loop, USB_frame hal_ok (2 # replicate 63 0)] power_on) = Inr 0
   \<and> observe ADCstate (exec 0x80 0x100
        [IRQ_TIM17, Main_loop, USB_frame hal_ok (2 # replicate 63 0)] power_on) = Inr noTrigger"
  by (simp add: observe_def eval_defs TIM17_IRQHandler_def main_loop_body_def main_ADC_switch_def
      main_Logic_switch_def main_send_def sendData_def adcen_def datalength_def
      changeADCmode_def changeSamplingtime_def
      ADC_SET_channel_def ADC_SET_adcmode_def ADC_SET_triggermode_def ADC_SET_triggerval_def
      ADC_SET_offset_def ADC_SET_attenuation_def ADC_SET_amp10_def ADC_SET_amp5_def
      ADC_SET_amp2_5_def ADC_SET_amp1_def)

text \<open>
  Claim C7, amended.  In every execution from power-on, an entry point that finds
  \<open>adcpos\<close> nonzero and leaves it zero is either a pass of the main loop taking the
  \<open>postTrigger\<close> to \<open>preTrigger\<close> transition (cursor past the last sample), or taking the
  \<open>preTrigger\<close> to \<open>triggerState\<close> transition (trigger confirmed), or wrapping around in
  \<open>noTrigger\<close> (cursor past the last sample); or it is the handling of an AcquisitionSet
  command, which calls \<open>ADCstart()\<close>.  No interrupt handler, callback or other command
  resets the cursor.
\<close>

theorem adcpos_reset_only_by:
  assumes "exec m1 m2 es power_on = Inr s" and "step m1 m2 e s = Inr s'"
    and "adcpos s \<noteq> 0" and "adcpos s' = 0"
  shows "(e = Main_loop \<and>
            (ADCstate s = postTrigger \<and> 29999 < adcpos s \<and> ADCstate s' = preTrigger
             \<or> ADCstate s = noTrigger \<and> 29999 < adcpos s \<and> ADCstate s' = noTrigger
             \<or> ADCstate s = preTrigger \<and> triggerType s = 2 \<and> ADCstate s' = triggerState))
       \<or> (\<exists>hal p. e = USB_frame hal p \<and> BULK_BUFF_RECV s = 0 \<and> packet_type p = 2)"
proof -
  have st: "steady s" by (rule exec_steady[OF assms(1) steady_power_on])
  show ?thesis
  proof (cases e)
    case (USB_frame hal p)
    with assms(2) have g: "GotCDC_64B_Packet hal p s = Inr s'" by simp
    from GotCDC_keeps(6)[OF g] assms(3,4) USB_frame show ?thesis by auto
  next
    case Main_loop
    with assms(2) have "s' = main_loop_body s" by simp
    with main_loop_body_effect(2)[OF st assms(3)] assms(4) Main_loop show ?thesis by simp
  next
    case (TIM_PWM_PulseFinished htim idr)
    with assms callback_steady(2)[of htim idr s s', OF _ st] show ?thesis by simp
  qed (use assms IRQ_keep_steady in auto)
qed


theorem adcpos_reset_only_by_witness:
  "\<exists>s s'. exec 0x80 0x100 [IRQ_TIM17, Main_loop] power_on = Inr s
      \<and> step 0x80 0x100 (USB_frame hal_ok (2 # replicate 63 0)) s = Inr s'
      \<and> adcpos s \<noteq> 0 \<and> adcpos s' = 0
      \<and> BULK_BUFF_RECV s = 0 \<and> packet_type (2 # replicate 63 0) = 2"
proof -
  have "\<exists>s. exec 0x80 0x100 [IRQ_TIM17, Main_loop] power_on = Inr s \<and> adcpos s = 8
          \<and> (\<exists>s'. step 0x80 0x100 (USB_frame hal_ok (2 # replicate 63 0)) s = Inr s'
                \<and> adcpos s' = 0)"
    by (simp add: eval_defs TIM17_IRQHandler_def main_loop_body_def main_ADC_switch_def
      main_Logic_switch_def main_send_def sendData_def adcen_def datalength_def
      changeADCmode_def changeSamplingtime_def
      ADC_SET_channel_def ADC_SET_adcmode_def ADC_SET_triggermode_def ADC_SET_triggerval_def
      ADC_SET_offset_def ADC_SET_attenuation_def ADC_SET_amp10_def ADC_SET_amp5_def
      ADC_SET_amp2_5_def ADC_SET_amp1_def)
  then obtain s s' where r: "exec 0x80 0x100 [IRQ_TIM17, Main_loop] power_on = Inr s"
    and a: "adcpos s = 8"
    and st: "step 0x80 0x100 (USB_frame hal_ok (2 # replicate 63 0)) s = Inr s'"
    and z: "adcpos s' = 0"
    by blast
  from a have nz: "adcpos s \<noteq> 0" by simp
  from adcpos_reset_only_by[OF r st nz z]
  have "BULK_BUFF_RECV s = 0 \<and> packet_type (2 # replicate 63 0) = 2" by auto
  with r st nz z show ?thesis by blast
qed

section \<open>The logic-analyzer capture callback (claims C9 and C10)\<close>

lemma callback_rising_edge:
  assumes "Channel htim = HAL_TIM_ACTIVE_CHANNEL_1"
    and "Logicstate s = preTrigger" and "trigEdge s = 1"
    and "pastValue s AND ucast (trigPin s) = 0"
    and "(ucast idr :: u16) AND ucast (trigPin s) \<noteq> 0"
    and "unat (logicWritePointer s) < LOGIC_BUFF"
  shows "\<exists>s'. HAL_TIM_PWM_PulseFinishedCallback htim idr s = Inr s'
     \<and> Logicstate s' = triggerState
     \<and> hw_log s' = hw_log s @ [HAL_TIM_Base_Start_IT TIM16]"
  using assms
  by (simp add: callback_defs)

lemma callback_stored_sample:
  assumes "unat (logicWritePointer s) < LOGIC_BUFF"
  shows "\<exists>s'. HAL_TIM_PWM_PulseFinishedCallback htim idr s = Inr s'
     \<and> Logic_buff s' = (Logic_buff s)(unat (logicWritePointer s) :=
          (if Channel htim = HAL_TIM_ACTIVE_CHANNEL_1 \<and> Logicstate s = preTrigger
              \<and> trigEdge s = 1 \<and> pastValue s AND ucast (trigPin s) = 0
           then ucast idr AND ucast (trigPin s)
           else ucast idr))"
  using assms
  by (simp add: callback_defs)

text \<open>
  The capture interrupt is the callback invoked with TIM5's handle and channel 1 marked
  active.  Claim C9: in every execution from power-on, when the capture interrupt is
  taken in state \<open>preTrigger\<close> with \<open>trigEdge\<close> 1, the previous value and-ed with the trigger
  pin mask zero and the port value and-ed with the mask nonzero, the callback returns with
  the state \<open>triggerState\<close>, and the one vendor call it has made is the start of TIM16.
\<close>

theorem rising_edge_starts_trigger:
  assumes "exec m1 m2 es power_on = Inr s"
    and "Logicstate s = preTrigger" and "trigEdge s = 1"
    and "pastValue s AND ucast (trigPin s) = 0"
    and "(ucast idr :: u16) AND ucast (trigPin s) \<noteq> 0"
  shows "\<exists>s'. step m1 m2 (logic_capture idr) s = Inr s'
     \<and> Logicstate s' = triggerState
     \<and> hw_log s' = hw_log s @ [HAL_TIM_Base_Start_IT TIM16]"
proof -
  from exec_steady[OF assms(1) steady_power_on]
  have r: "unat (logicWritePointer s) < LOGIC_BUFF" by (simp add: steady_def)
  have c: "Channel TIM5_CC1 = HAL_TIM_ACTIVE_CHANNEL_1" by (simp add: TIM5_CC1_def)
  from callback_rising_edge[OF c assms(2-5) r] show ?thesis
    by (simp add: logic_capture_def)
qed

theorem rising_edge_starts_trigger_witness:
  "\<exists>s s'. exec 0x80 0x100
      [USB_frame hal_ok ([3, 1, 1, 0, 1, 0, 0xFF, 0xFF, 1, 0, 0xA0, 0x8C] @ replicate 52 0)] power_on
        = Inr s
     \<and> step 0x80 0x100 (logic_capture 1) s = Inr s'
     \<and> Logicstate s' = triggerState \<and> TIM16_starts s = 0 \<and> TIM16_starts s' = 1"
proof -
  have "\<exists>s. exec 0x80 0x100
      [USB_frame hal_ok ([3, 1, 1, 0, 1, 0, 0xFF, 0xFF, 1, 0, 0xA0, 0x8C] @ replicate 52 0)] power_on
        = Inr s \<and> Logicstate s = preTrigger \<and> trigEdge s = 1
      \<and> pastValue s AND ucast (trigPin s) = 0 \<and> (ucast (1::u32) :: u16) AND ucast (trigPin s) \<noteq> 0
      \<and> TIM16_starts s = 0"
    by (simp add: eval_defs LOGIC_SET_defs TIM16_starts_def)
  then obtain s where r: "exec 0x80 0x100
      [USB_frame hal_ok ([3, 1, 1, 0, 1, 0, 0xFF, 0xFF, 1, 0, 0xA0, 0x8C] @ replicate 52 0)] power_on
        = Inr s"
    and h: "Logicstate s = preTrigger" "trigEdge s = 1"
      "pastValue s AND ucast (trigPin s) = 0" "(ucast (1::u32) :: u16) AND ucast (trigPin s) \<noteq> 0"
    and t: "TIM16_starts s = 0"
    by blast
  from rising_edge_starts_trigger[OF r h] obtain s' where
    "step 0x80 0x100 (logic_capture 1) s = Inr s'" "Logicstate s' = triggerState"
    "hw_log s' = hw_log s @ [HAL_TIM_Base_Start_IT TIM16]"
    by blast
  moreover from this(3) t have "TIM16_starts s' = 1" by (simp add: TIM16_starts_def)
  ultimately show ?thesis using r t by blast
qed

text \<open>
  Claim C10.  In every execution from power-on the capture interrupt returns, and the
  sample it has written at the write index is the port value and-ed with the trigger pin
  mask when the state is \<open>preTrigger\<close>, \<open>trigEdge\<close> is 1 and the previous value and-ed with
  the mask is zero; in every other case it is the port value as read.  No other element of
  the buffer changes.
\<close>

theorem stored_sample:
  assumes "exec m1 m2 es power_on = Inr s"
  shows "\<exists>s'. step m1 m2 (logic_capture idr) s = Inr s'
     \<and> Logic_buff s' = (Logic_buff s)(unat (logicWritePointer s) :=
          (if Logicstate s = preTrigger \<and> trigEdge s = 1 \<and> pastValue s AND ucast (trigPin s) = 0
           then ucast idr AND ucast (trigPin s)
           else ucast idr))"
proof -
  from exec_steady[OF assms steady_power_on]
  have "unat (logicWritePointer s) < LOGIC_BUFF" by (simp add: steady_def)
  from callback_stored_sample[OF this, of TIM5_CC1 idr] show ?thesis
    by (simp add: logic_capture_def TIM5_CC1_def)
qed

text \<open>After the LogicSet command with pin mask 1 and rising edge, with the port reading
  3: the first capture stores 3 and-ed with 1, and, the state now being \<open>triggerState\<close>,
  the second stores 3.\<close>

theorem stored_sample_witness:
  "\<exists>s s' s''. exec 0x80 0x100
      [USB_frame hal_ok ([3, 1, 1, 0, 1, 0, 0xFF, 0xFF, 1, 0, 0xA0, 0x8C] @ replicate 52 0)] power_on
        = Inr s
     \<and> step 0x80 0x100 (logic_capture 3) s = Inr s' \<and> Logic_buff s' 0 = 1
     \<and> step 0x80 0x100 (logic_capture 3) s' = Inr s'' \<and> Logic_buff s'' 1 = 3"
proof -
  have "\<exists>s. exec 0x80 0x100
      [USB_frame hal_ok ([3, 1, 1, 0, 1, 0, 0xFF, 0xFF, 1, 0, 0xA0, 0x8C] @ replicate 52 0)] power_on
        = Inr s \<and> Logicstate s = preTrigger \<and> trigEdge s = 1 \<and> trigPin s = 1
      \<and> pastValue s = 0 \<and> logicWritePointer s = 0"
    by (simp add: eval_defs LOGIC_SET_defs)
  then obtain s where r: "exec 0x80 0x100
      [USB_frame hal_ok ([3, 1, 1, 0, 1, 0, 0xFF, 0xFF, 1, 0, 0xA0, 0x8C] @ replicate 52 0)] power_on
        = Inr s"
    and h: "Logicstate s = preTrigger" "trigEdge s = 1" "trigPin s = 1" "pastValue s = 0"
      "logicWritePointer s = 0"
    by blast
  from stored_sample[OF r, of 3] obtain s' where
    c: "step 0x80 0x100 (logic_capture 3) s = Inr s'"
    and b: "Logic_buff s' = (Logic_buff s)(unat (logicWritePointer s) :=
          (if Logicstate s = preTrigger \<and> trigEdge s = 1 \<and> pastValue s AND ucast (trigPin s) = 0
           then ucast (3::u32) AND ucast (trigPin s)
           else ucast (3::u32)))"
    by blast
  from b h have b0: "Logic_buff s' 0 = 1" by simp
  from c h have k: "Logicstate s' = triggerState" "logicWritePointer s' = 1"
    by (auto simp: logic_capture_def TIM5_CC1_def callback_defs LOGIC_BUFF_def)
  have r': "exec 0x80 0x100
      ([USB_frame hal_ok ([3, 1, 1, 0, 1, 0, 0xFF, 0xFF, 1, 0, 0xA0, 0x8C] @ replicate 52 0)]
        @ [logic_capture 3]) power_on = Inr s'"
    by (simp only: exec_append r sum.case) (simp add: c)
  from stored_sample[OF r', of 3] obtain s'' where
    c': "step 0x80 0x100 (logic_capture 3) s' = Inr s''"
    and b': "Logic_buff s'' = (Logic_buff s')(unat (logicWritePointer s') :=
          (if Logicstate s' = preTrigger \<and> trigEdge s' = 1 \<and> pastValue s' AND ucast (trigPin s') = 0
           then ucast (3::u32) AND ucast (trigPin s')
           else ucast (3::u32)))"
    by blast
  from b' k have "Logic_buff s'' 1 = 3" by simp
  with r c b0 c' show ?thesis by blast
qed

section \<open>A pass of the main loop (claim C4)\<close>

lemma window_in_range:
  "nat off + datalength \<le> cap \<Longrightarrow> 0 \<le> off \<Longrightarrow>
   window buf cap off = Some (map (\<lambda>i. buf (nat off + i)) [0..<datalength])"
  by (simp add: window_def)

text \<open>
  The transmission block that ends a pass (\<open>if(((adcsend==1) || (logicsend==1)) &
  (pauseTransmit==0))\<close>), entered with each ready flag 0 or 1, at least one of them 1 and no
  command being handled, hands exactly one data frame (tag 5) to the USB transmit routine,
  followed by the 150 microsecond delay.  A ready subsystem's cursor field is its cursor
  and its window is read at that cursor, and its cursor advances by \<open>datalength\<close>; a
  subsystem that is not ready has cursor field 40000 and its cursor stays.  Both flags are
  0 afterwards.
\<close>

lemma main_send_block:
  assumes "pauseTransmit s = 0"
    and "adcsend s = 0 \<or> adcsend s = 1" and "logicsend s = 0 \<or> logicsend s = 1"
    and "adcsend s = 1 \<or> logicsend s = 1"
  shows "\<exists>f. hw_log (main_send s) = hw_log s @ [CDC_Transmit_FS (DATA f), delay_us 150]
     \<and> sent_frames (hw_log (main_send s)) = sent_frames (hw_log s) @ [DATA f]
     \<and> DATA_packet_type f = 5
     \<and> DATA_adcpos f = (if adcsend s = 1 then adcpos s else 40000)
     \<and> DATA_logicpos f = (if logicsend s = 1 then logicpos s else 40000)
     \<and> (adcsend s = 1 \<longrightarrow>
          DATA_oscch1 f = window (adc_buff s) ADC_BUFF (uint (adcpos s)) \<and>
          DATA_oscch2 f = window (adc_buff1 s) ADC_BUFF (uint (adcpos s)))
     \<and> (logicsend s = 1 \<longrightarrow>
          DATA_logic f = window (Logic_buff s) LOGIC_BUFF (uint (logicpos s)))
     \<and> adcpos (main_send s) = (if adcsend s = 1 then adcpos s + of_nat datalength else adcpos s)
     \<and> logicpos (main_send s)
         = (if logicsend s = 1 then logicpos s + of_nat datalength else logicpos s)
     \<and> adcsend (main_send s) = 0 \<and> logicsend (main_send s) = 0"
  using assms
  by (auto simp: main_send_def sendData_def hw_def sent_frames_simps)

text \<open>
  Before that block, the logic-analyzer switch of the same pass sets \<open>logicsend\<close> and
  advances \<open>logicpos\<close> itself (\<open>logicpos+=datalength;\<close>, main.c 412).  From every state
  between entry points in which the logic analyzer is in \<open>postTrigger\<close> with data left to
  send, one pass of the loop sends one frame, whose logic cursor field and window are one
  window past the cursor the pass started with, and leaves the cursor two windows
  further.
\<close>

lemma main_ADC_switch_logic:
  "logicpos (main_ADC_switch s) = logicpos s"
  "Logicstate (main_ADC_switch s) = Logicstate s"
  "Logic_buff (main_ADC_switch s) = Logic_buff s"
  "sent_frames (hw_log (main_ADC_switch s)) = sent_frames (hw_log s)"
  by (cases "ADCstate s"; simp add: main_ADC_switch_def hw_def ADCstart_def ADCstop_def
        sent_frames_simps)+

lemma main_Logic_switch_ready:
  assumes "Logicstate s = postTrigger" and "unat (logicpos s) < LOGIC_BUFF"
  shows "main_Logic_switch s
     = s\<lparr>trigger := 0, logicsend := 1, logicpos := logicpos s + of_nat datalength\<rparr>"
  using assms by (simp add: main_Logic_switch_def)

lemma logic_cursor_advances_twice_per_pass:
  assumes "steady s" and "Logicstate s = postTrigger" and "unat (logicpos s) < LOGIC_BUFF"
  shows "\<exists>f. sent_frames (hw_log (main_loop_body s)) = sent_frames (hw_log s) @ [DATA f]
           \<and> DATA_logicpos f = logicpos s + of_nat datalength
           \<and> DATA_logic f
               = window (Logic_buff s) LOGIC_BUFF (uint (logicpos s + of_nat datalength))
           \<and> logicpos (main_loop_body s) = logicpos s + of_nat datalength + of_nat datalength"
proof -
  let ?a = "main_ADC_switch s"
  let ?b = "?a\<lparr>trigger := 0, logicsend := 1, logicpos := logicpos s + of_nat datalength\<rparr>"
  from assms(1) have st: "pauseTransmit s = 0" "adcsend s = 0" "logicsend s = 0"
    by (simp_all add: steady_def)
  note a = main_ADC_switch_effect[OF st(2)] main_ADC_switch_logic[of s]
  have l: "main_Logic_switch ?a = ?b"
    using main_Logic_switch_ready[of ?a] assms(2,3) a by simp
  have m: "main_loop_body s = main_send ?b"
    by (simp add: main_loop_body_def adcen_def l)
  from a st have h: "pauseTransmit ?b = 0" "adcsend ?b = 0 \<or> adcsend ?b = 1"
    "logicsend ?b = 0 \<or> logicsend ?b = 1" "adcsend ?b = 1 \<or> logicsend ?b = 1"
    by auto
  from main_send_block[OF h] obtain f where
    f: "sent_frames (hw_log (main_send ?b)) = sent_frames (hw_log ?b) @ [DATA f]"
      "DATA_logicpos f = (if logicsend ?b = 1 then logicpos ?b else 40000)"
      "logicsend ?b = 1 \<longrightarrow> DATA_logic f = window (Logic_buff ?b) LOGIC_BUFF (uint (logicpos ?b))"
      "logicpos (main_send ?b) = (if logicsend ?b = 1 then logicpos ?b + of_nat datalength else logicpos ?b)"
    by blast
  from f a show ?thesis unfolding m by (intro exI[of _ f]) simp
qed

text \<open>
  Claim C4 says that in every iteration of the loop in which a subsystem is ready, the
  frame carries the ready subsystem's current window and its cursor advances by the window
  length.  For the oscilloscope the advance is made in the transmission block only (in the
  first switch it is commented out, \<open>//adcpos+=datalength;\<close>); for the logic analyzer it
  is made in the second switch and again in the transmission block.  A run from power-on:
  a LogicSet command starts the analyzer, nine capture interrupts store the port values 1
  to 9 (the first is the rising edge), the countdown timer TIM16 elapses and the cursor is
  0.  The next pass of the loop sends the window at 8, which holds the ninth sample
  followed by zeroes, and leaves the cursor at 16; the pass after it sends the window at
  24 and leaves the cursor at 32.  The windows at 0, which holds the first eight samples,
  and at 16 are passed over.
\<close>

theorem logic_pass_skips_window:
  "observe Logicstate (exec 0x80 0x100
      ([USB_frame hal_ok ([3, 1, 1, 0, 1, 0, 0xFF, 0xFF, 1, 0, 0xA0, 0x8C] @ replicate 52 0)]
       @ map logic_capture [1, 2, 3, 4, 5, 6, 7, 8, 9]
       @ [TIM_PeriodElapsed \<lparr>Instance = TIM16, Channel = HAL_TIM_ACTIVE_CHANNEL_CLEARED\<rparr>])
      power_on) = Inr postTrigger
   \<and> observe logicpos (exec 0x80 0x100
      ([USB_frame hal_ok ([3, 1, 1, 0, 1, 0, 0xFF, 0xFF, 1, 0, 0xA0, 0x8C] @ replicate 52 0)]
       @ map logic_capture [1, 2, 3, 4, 5, 6, 7, 8, 9]
       @ [TIM_PeriodElapsed \<lparr>Instance = TIM16, Channel = HAL_TIM_ACTIVE_CHANNEL_CLEARED\<rparr>])
      power_on) = Inr 0
   \<and> observe (Logic_sample 0) (exec 0x80 0x100
      ([USB_frame hal_ok ([3, 1, 1, 0, 1, 0, 0xFF, 0xFF, 1, 0, 0xA0, 0x8C] @ replicate 52 0)]
       @ map logic_capture [1, 2, 3, 4, 5, 6, 7, 8, 9]
       @ [TIM_PeriodElapsed \<lparr>Instance = TIM16, Channel = HAL_TIM_ACTIVE_CHANNEL_CLEARED\<rparr>])
      power_on) = Inr 1
   \<and> frames_of (exec 0x80 0x100
      ([USB_frame hal_ok ([3, 1, 1, 0, 1, 0, 0xFF, 0xFF, 1, 0, 0xA0, 0x8C] @ replicate 52 0)]
       @ map logic_capture [1, 2, 3, 4, 5, 6, 7, 8, 9]
       @ [TIM_PeriodElapsed \<lparr>Instance = TIM16, Channel = HAL_TIM_ACTIVE_CHANNEL_CLEARED\<rparr>,
          Main_loop])
      power_on)
     = Inr [ack,
            DATA \<lparr>DATA_packet_type = 5, DATA_adcpos = 40000, DATA_logicpos = 8,
                  DATA_oscch1 = None, DATA_oscch2 = None,
                  DATA_logic = Some [9, 0, 0, 0, 0, 0, 0, 0]\<rparr>]
   \<and> observe logicpos (exec 0x80 0x100
      ([USB_frame hal_ok ([3, 1, 1, 0, 1, 0, 0xFF, 0xFF, 1, 0, 0xA0, 0x8C] @ replicate 52 0)]
       @ map logic_capture [1, 2, 3, 4, 5, 6, 7, 8, 9]
       @ [TIM_PeriodElapsed \<lparr>Instance = TIM16, Channel = HAL_TIM_ACTIVE_CHANNEL_CLEARED\<rparr>,
          Main_loop])
      power_on) = Inr 16
   \<and> frames_of (exec 0x80 0x100
      ([USB_frame hal_ok ([3, 1, 1, 0, 1, 0, 0xFF, 0xFF, 1, 0, 0xA0, 0x8C] @ replicate 52 0)]
       @ map logic_capture [1, 2, 3, 4, 5, 6, 7, 8, 9]
       @ [TIM_PeriodElapsed \<lparr>Instance = TIM16, Channel = HAL_TIM_ACTIVE_CHANNEL_CLEARED\<rparr>,
          Main_loop, Main_loop])
      power_on)
     = Inr [ack,
            DATA \<lparr>DATA_packet_type = 5, DATA_adcpos = 40000, DATA_logicpos = 8,
                  DATA_oscch1 = None, DATA_oscch2 = None,
                  DATA_logic = Some [9, 0, 0, 0, 0, 0, 0, 0]\<rparr>,
            DATA \<lparr>DATA_packet_type = 5, DATA_adcpos = 40000, DATA_logicpos = 24,
                  DATA_oscch1 = None, DATA_oscch2 = None,
                  DATA_logic = Some [0, 0, 0, 0, 0, 0, 0, 0]\<rparr>]
   \<and> observe logicpos (exec 0x80 0x100
      ([USB_frame hal_ok ([3, 1, 1, 0, 1, 0, 0xFF, 0xFF, 1, 0, 0xA0, 0x8C] @ replicate 52 0)]
       @ map logic_capture [1, 2, 3, 4, 5, 6, 7, 8, 9]
       @ [TIM_PeriodElapsed \<lparr>Instance = TIM16, Channel = HAL_TIM_ACTIVE_CHANNEL_CLEARED\<rparr>,
          Main_loop, Main_loop])
      power_on) = Inr 32"
  by (simp add: observe_def eval_defs callback_defs LOGIC_SET_defs LOGIC_BUFF_def ADC_BUFF_def
      Logic_sample_def logic_capture_def TIM5_CC1_def HAL_TIM_PeriodElapsedCallback_def
      main_loop_body_def main_ADC_switch_def main_Logic_switch_def main_send_def sendData_def
      window_def datalength_def adcen_def upt_rec)

end
